theory Spec2Isabelle
  imports Complex_Main "HOL-Library.Sublist"
begin

section \<open>The proxy server of QuadraChat-AI\<close>

text \<open>
  A shallow embedding of the Express proxy server (the file with the routes
  \<^verbatim>\<open>/api/chat\<close>, \<^verbatim>\<open>/api/payment/order\<close> and \<^verbatim>\<open>/api/payment/verify\<close>):
  the plan catalogue, the in-memory entitlement and transaction stores, the retrying upstream
  call \<^verbatim>\<open>callOpenAIWithRetry\<close> and the request handlers.

  Conventions of the embedding.
  \<^item> A JavaScript exception is a value of \<open>js_error\<close>; a function that may throw returns
    \<open>js_error + 'a\<close>, with \<open>Inl\<close> the exception.
  \<^item> \<^verbatim>\<open>undefined\<close> is \<open>None\<close> of an option type; JSON \<^verbatim>\<open>null\<close> is \<open>JNull\<close>.
  \<^item> The module-level objects used as dictionaries (\<^verbatim>\<open>PLANS\<close>, \<^verbatim>\<open>userEntitlements\<close>,
    \<^verbatim>\<open>paymentTransactions\<close>) are finite maps from strings; keys that collide with a member
    inherited from \<^verbatim>\<open>Object.prototype\<close> (such as \<^verbatim>\<open>constructor\<close>) are outside the model.
  \<^item> User, plan, provider and transaction identifiers are strings. Strings are lists of
    8-bit characters, so \<open>length\<close> agrees with JavaScript's \<^verbatim>\<open>.length\<close> on ASCII text.
  \<^item> JSON numbers are integers. Delays are real numbers of milliseconds, or \<open>NaN\<close>;
    \<^verbatim>\<open>Math.random()\<close> is a parameter \<open>r\<close> with \<open>0 \<le> r < 1\<close>.
  \<^item> The network is a parameter: \<open>upstream req attempt\<close> is the outcome of the
    \<^verbatim>\<open>fetch\<close> performed by the given attempt. \<^verbatim>\<open>new Date()\<close> and \<^verbatim>\<open>uuidv4()\<close> are
    parameters as well. Logging is omitted.
\<close>

subsection \<open>JavaScript values\<close>

datatype js_error = Error string | TypeError string

fun message :: "js_error \<Rightarrow> string" where
  "message (Error m) = m"
| "message (TypeError m) = m"

fun instanceof_TypeError :: "js_error \<Rightarrow> bool" where
  "instanceof_TypeError (Error m) = False"
| "instanceof_TypeError (TypeError m) = True"

text \<open>\<^verbatim>\<open>error.toString()\<close> for an error with an empty message is the name of its class.\<close>

fun error_name :: "js_error \<Rightarrow> string" where
  "error_name (Error m) = ''Error''"
| "error_name (TypeError m) = ''TypeError''"

datatype json =
    JNull
  | JBool bool
  | JNum int
  | JStr string
  | JArr "json list"
  | JObj "(string \<times> json) list"

fun truthy :: "json \<Rightarrow> bool" where
  "truthy JNull = False"
| "truthy (JBool b) = b"
| "truthy (JNum n) = (n \<noteq> 0)"
| "truthy (JStr s) = (s \<noteq> [])"
| "truthy (JArr xs) = True"
| "truthy (JObj kvs) = True"

text \<open>
  \<^verbatim>\<open>v.name\<close> for a value \<open>v\<close> that is not \<^verbatim>\<open>null\<close> and a name that is not an array index;
  \<open>None\<close> is \<^verbatim>\<open>undefined\<close>. Reading a property of \<^verbatim>\<open>null\<close> throws: every caller below
  decides that case before it calls \<open>get_prop\<close>.
\<close>

fun get_prop :: "json \<Rightarrow> string \<Rightarrow> json option" where
  "get_prop (JObj kvs) k = map_of kvs k"
| "get_prop (JArr xs) k = (if k = ''length'' then Some (JNum (int (length xs))) else None)"
| "get_prop (JStr s) k = (if k = ''length'' then Some (JNum (int (length s))) else None)"
| "get_prop (JNum n) k = None"
| "get_prop (JBool b) k = None"
| "get_prop JNull k = None"

text \<open>\<^verbatim>\<open>v[0]\<close> for a value \<open>v\<close> that is not \<^verbatim>\<open>null\<close>.\<close>

fun get_first :: "json \<Rightarrow> json option" where
  "get_first (JArr xs) = (case xs of [] \<Rightarrow> None | x # _ \<Rightarrow> Some x)"
| "get_first (JStr s) = (case s of [] \<Rightarrow> None | c # _ \<Rightarrow> Some (JStr [c]))"
| "get_first (JObj kvs) = map_of kvs ''0''"
| "get_first (JNum n) = None"
| "get_first (JBool b) = None"
| "get_first JNull = None"

text \<open>\<^verbatim>\<open>String.prototype.includes\<close>: does \<open>t\<close> occur in \<open>s\<close> as a contiguous substring?\<close>

fun str_includes :: "string \<Rightarrow> string \<Rightarrow> bool" where
  "str_includes [] t = (t = [])"
| "str_includes (c # cs) t = (prefix t (c # cs) \<or> str_includes cs t)"

text \<open>The decimal rendering of a natural number, as a template literal prints it.\<close>

definition digit_char :: "nat \<Rightarrow> char" where
  "digit_char d =
     (if d = 0 then CHR ''0'' else if d = 1 then CHR ''1'' else if d = 2 then CHR ''2''
      else if d = 3 then CHR ''3'' else if d = 4 then CHR ''4'' else if d = 5 then CHR ''5''
      else if d = 6 then CHR ''6'' else if d = 7 then CHR ''7'' else if d = 8 then CHR ''8''
      else CHR ''9'')"

function show_nat :: "nat \<Rightarrow> string" where
  "show_nat n = (if n < 10 then [digit_char n] else show_nat (n div 10) @ [digit_char (n mod 10)])"
  by pat_completeness auto
termination
  by (relation "measure id") auto

declare show_nat.simps [simp del]

subsection \<open>parseInt\<close>

text \<open>
  \<^verbatim>\<open>parseInt(s)\<close> without a radix: leading white space is skipped, a sign is read, a
  prefix \<^verbatim>\<open>0x\<close> selects base 16, and the longest run of digits is converted; no digit at all
  gives \<^verbatim>\<open>NaN\<close>, here \<open>None\<close>. (Rounding to a double above \<open>2 ^ 53\<close> is not modelled.)

  The white space of JavaScript that an 8-bit character can hold is the space, the
  characters 9 to 13 and the no-break space U+00A0 (character \<open>0xA0\<close>). The other white
  space of JavaScript (U+FEFF, U+2028, U+2029 and the Unicode space separators above U+00FF)
  has no 8-bit character and is outside the model.
\<close>

definition is_white_space :: "char \<Rightarrow> bool" where
  "is_white_space c =
     (c \<in> set [CHR '' '', CHR 0x09, CHR 0x0A, CHR 0x0B, CHR 0x0C, CHR 0x0D, CHR 0xA0])"

definition digit_value :: "char \<Rightarrow> nat option" where
  "digit_value c =
     (let n = of_char c :: nat in
      if 48 \<le> n \<and> n \<le> 57 then Some (n - 48)
      else if 97 \<le> n \<and> n \<le> 122 then Some (n - 87)
      else if 65 \<le> n \<and> n \<le> 90 then Some (n - 55)
      else None)"

definition is_digit :: "nat \<Rightarrow> char \<Rightarrow> bool" where
  "is_digit radix c = (case digit_value c of None \<Rightarrow> False | Some d \<Rightarrow> d < radix)"

definition digits_value :: "nat \<Rightarrow> string \<Rightarrow> nat" where
  "digits_value radix ds = foldl (\<lambda>acc c. acc * radix + (case digit_value c of None \<Rightarrow> 0 | Some d \<Rightarrow> d)) 0 ds"

definition parse_digits :: "nat \<Rightarrow> string \<Rightarrow> nat option" where
  "parse_digits radix s =
     (let ds = takeWhile (is_digit radix) s
      in if ds = [] then None else Some (digits_value radix ds))"

definition parse_unsigned :: "string \<Rightarrow> nat option" where
  "parse_unsigned s =
     (if prefix ''0x'' s \<or> prefix ''0X'' s then parse_digits 16 (drop 2 s)
      else parse_digits 10 s)"

definition parseInt :: "string \<Rightarrow> int option" where
  "parseInt s =
     (case dropWhile is_white_space s of
        c # cs \<Rightarrow>
          if c = CHR ''-'' then map_option (\<lambda>n. - int n) (parse_unsigned cs)
          else if c = CHR ''+'' then map_option int (parse_unsigned cs)
          else map_option int (parse_unsigned (c # cs))
      | [] \<Rightarrow> None)"

subsection \<open>The upstream call\<close>

text \<open>What the retrier reads of a \<^verbatim>\<open>fetch\<close> response.\<close>

record response =
  status :: nat
  retry_after :: "string option"
  body_text :: string
  body_json :: "js_error + json"

definition ok :: "response \<Rightarrow> bool" where
  "ok resp = (200 \<le> status resp \<and> status resp \<le> 299)"

datatype fetch_result = FetchThrows js_error | FetchResolves response

text \<open>What the retrier sends: the arguments of \<^verbatim>\<open>fetch\<close>.\<close>

record request =
  url :: string
  bearer :: string
  openrouter_headers :: bool
  req_model :: string
  req_messages :: json
  max_tokens :: nat

type_synonym upstream = "request \<Rightarrow> nat \<Rightarrow> fetch_result"

datatype millis = Millis real | NaN

text \<open>\<^verbatim>\<open>Math.min(Math.pow(2, attempt) * 1000 + Math.random() * 1000, 30000)\<close>\<close>

definition backoff_delay :: "nat \<Rightarrow> real \<Rightarrow> millis" where
  "backoff_delay attempt r = Millis (min (2 ^ attempt * 1000 + r * 1000) 30000)"

text \<open>\<^verbatim>\<open>parseInt(retryAfter) * 1000\<close>\<close>

definition retry_after_delay :: "string \<Rightarrow> millis" where
  "retry_after_delay retryAfter =
     (case parseInt retryAfter of None \<Rightarrow> NaN | Some n \<Rightarrow> Millis (real_of_int n * 1000))"

text \<open>
  The checks on the parsed body of a successful response. The last check of the source, on
  \<^verbatim>\<open>messageContent.trim() === ''\<close>, only logs a warning and has no branch here.
\<close>

datatype try_outcome = Returned json | Thrown js_error | Slept millis

definition message_content :: "json \<Rightarrow> json option" where
  "message_content choice =
     (case get_prop choice ''message'' of
        None \<Rightarrow> None
      | Some JNull \<Rightarrow> None
      | Some m \<Rightarrow> get_prop m ''content'')"

definition invalid_structure :: "string \<Rightarrow> js_error" where
  "invalid_structure provider = Error (''Invalid response structure from '' @ provider @ '' API'')"

definition no_content :: "string \<Rightarrow> js_error" where
  "no_content provider = Error (''No message content in response from '' @ provider @ '' API'')"

definition not_a_string :: "string \<Rightarrow> js_error" where
  "not_a_string provider = Error (''Message content is not a string from '' @ provider @ '' API'')"

definition check_content :: "string \<Rightarrow> json \<Rightarrow> json option \<Rightarrow> try_outcome" where
  "check_content provider data messageContent =
     (case messageContent of
        None \<Rightarrow> Thrown (no_content provider)
      | Some JNull \<Rightarrow> Thrown (no_content provider)
      | Some (JStr s) \<Rightarrow> Returned data
      | Some _ \<Rightarrow> Thrown (not_a_string provider))"

definition validate_data :: "string \<Rightarrow> json \<Rightarrow> try_outcome" where
  "validate_data provider data =
     (if data = JNull then Thrown (TypeError ''Cannot read properties of null (reading 'choices')'')
      else (case get_prop data ''choices'' of
        None \<Rightarrow> Thrown (invalid_structure provider)
      | Some choices \<Rightarrow>
          (if \<not> truthy choices then Thrown (invalid_structure provider)
           else (case get_first choices of
             None \<Rightarrow> Thrown (invalid_structure provider)
           | Some choice \<Rightarrow>
               (if \<not> truthy choice then Thrown (invalid_structure provider)
                else check_content provider data (message_content choice))))))"

text \<open>The body of the \<^verbatim>\<open>try\<close> block of one attempt, after \<^verbatim>\<open>fetch\<close> has settled.\<close>

definition rate_limit_error :: "string \<Rightarrow> js_error" where
  "rate_limit_error provider = Error (provider @ '' rate limit exceeded. Please try again later.'')"

definition payment_required_error :: js_error where
  "payment_required_error = Error ''Payment required. Please add credits to your account.''"

definition api_error :: "string \<Rightarrow> response \<Rightarrow> js_error" where
  "api_error provider resp =
     Error (provider @ '' API error: '' @ show_nat (status resp) @ '' - '' @ body_text resp)"

text \<open>The delay of the 429 branch: the server's hint when the header is a non-empty string.\<close>

definition rate_limit_delay :: "string option \<Rightarrow> nat \<Rightarrow> real \<Rightarrow> millis" where
  "rate_limit_delay retryAfter attempt r =
     (case retryAfter of
        None \<Rightarrow> backoff_delay attempt r
      | Some h \<Rightarrow> (if h \<noteq> [] then retry_after_delay h else backoff_delay attempt r))"

definition rate_limited :: "string \<Rightarrow> nat \<Rightarrow> nat \<Rightarrow> real \<Rightarrow> response \<Rightarrow> try_outcome" where
  "rate_limited provider maxRetries attempt r resp =
     (if attempt < maxRetries then Slept (rate_limit_delay (retry_after resp) attempt r)
      else Thrown (rate_limit_error provider))"

definition try_block :: "string \<Rightarrow> nat \<Rightarrow> nat \<Rightarrow> real \<Rightarrow> fetch_result \<Rightarrow> try_outcome" where
  "try_block provider maxRetries attempt r res =
     (case res of
        FetchThrows e \<Rightarrow> Thrown e
      | FetchResolves resp \<Rightarrow>
          (if \<not> ok resp then
             (if status resp = 429 then rate_limited provider maxRetries attempt r resp
              else if status resp = 402 then Thrown payment_required_error
              else Thrown (api_error provider resp))
           else (case body_json resp of
             Inl e \<Rightarrow> Thrown e
           | Inr data \<Rightarrow> validate_data provider data)))"

text \<open>
  The \<^verbatim>\<open>catch\<close> block: \<open>Rethrow\<close> leaves the function, \<open>Retry d\<close> goes to the next attempt
  after sleeping \<open>d\<close> (\<open>None\<close>: the bare \<^verbatim>\<open>continue\<close> of the rate-limit branch).
\<close>

datatype catch_outcome = Rethrow js_error | Retry "millis option"

definition catch_block :: "nat \<Rightarrow> nat \<Rightarrow> real \<Rightarrow> js_error \<Rightarrow> catch_outcome" where
  "catch_block maxRetries attempt r e =
     (if attempt = maxRetries then Rethrow e
      else if instanceof_TypeError e \<or> str_includes (message e) ''fetch'' then
        Retry (Some (backoff_delay attempt r))
      else if str_includes (message e) ''rate limit'' then Retry None
      else Rethrow e)"

text \<open>
  The result of the retrier: what it returns or throws, the number of \<^verbatim>\<open>fetch\<close> calls it
  made, and the delays it slept, in order.
\<close>

record retry_result =
  outcome :: "js_error + json"
  attempts :: nat
  sleeps :: "millis list"

text \<open>
  The loop \<^verbatim>\<open>for (let attempt = 0; attempt <= maxRetries; attempt++)\<close>; \<open>rnd attempt\<close> is the
  value \<^verbatim>\<open>Math.random()\<close> returns during that attempt. \<open>lastError\<close> is the variable of the
  source, assigned in the \<^verbatim>\<open>catch\<close> block only.
\<close>

function retry_loop ::
  "(nat \<Rightarrow> fetch_result) \<Rightarrow> (nat \<Rightarrow> real) \<Rightarrow> string \<Rightarrow> nat \<Rightarrow> nat \<Rightarrow> js_error option \<Rightarrow> millis list
     \<Rightarrow> retry_result" where
  "retry_loop fetch rnd provider maxRetries attempt lastError slept =
     (if attempt \<le> maxRetries then
        (case try_block provider maxRetries attempt (rnd attempt) (fetch attempt) of
           Returned data \<Rightarrow> \<lparr>outcome = Inr data, attempts = attempt + 1, sleeps = slept\<rparr>
         | Slept d \<Rightarrow>
             retry_loop fetch rnd provider maxRetries (attempt + 1) lastError (slept @ [d])
         | Thrown e \<Rightarrow>
             (case catch_block maxRetries attempt (rnd attempt) e of
                Rethrow e' \<Rightarrow> \<lparr>outcome = Inl e', attempts = attempt + 1, sleeps = slept\<rparr>
              | Retry None \<Rightarrow>
                  retry_loop fetch rnd provider maxRetries (attempt + 1) (Some e) slept
              | Retry (Some d) \<Rightarrow>
                  retry_loop fetch rnd provider maxRetries (attempt + 1) (Some e) (slept @ [d])))
      else \<lparr>outcome = Inl (case lastError of Some e \<Rightarrow> e | None \<Rightarrow> Error ''Unknown error occurred''),
             attempts = attempt, sleeps = slept\<rparr>)"
  by pat_completeness auto
termination
  by (relation "measure (\<lambda>(fetch, rnd, provider, maxRetries, attempt, lastError, slept).
        Suc maxRetries - attempt)") auto

declare retry_loop.simps [simp del]

subsection \<open>Provider selection\<close>

text \<open>The two variables of \<^verbatim>\<open>process.env\<close> that hold provider credentials.\<close>

record env =
  OPENROUTER_API_KEY :: "string option"
  OPENAI_GPT5_NANO_KEY :: "string option"

record provider_config =
  API_KEY :: "string option"
  API_ENDPOINT :: string
  model :: string

text \<open>The \<^verbatim>\<open>switch (provider)\<close> at the head of \<^verbatim>\<open>callOpenAIWithRetry\<close>.\<close>

definition select_provider :: "env \<Rightarrow> string \<Rightarrow> provider_config" where
  "select_provider e provider =
     (if provider = ''openrouter'' then
        \<lparr>API_KEY = OPENROUTER_API_KEY e,
         API_ENDPOINT = ''https://openrouter.ai/api/v1/chat/completions'',
         model = ''openai/gpt-3.5-turbo''\<rparr>
      else if provider = ''gpt5-nano'' then
        \<lparr>API_KEY = OPENAI_GPT5_NANO_KEY e,
         API_ENDPOINT = ''https://openrouter.ai/api/v1/chat/completions'',
         model = ''openai/gpt-5-nano''\<rparr>
      else
        \<lparr>API_KEY = OPENROUTER_API_KEY e,
         API_ENDPOINT = ''https://openrouter.ai/api/v1/chat/completions'',
         model = ''openai/gpt-3.5-turbo''\<rparr>)"

definition build_request :: "provider_config \<Rightarrow> string \<Rightarrow> string \<Rightarrow> json \<Rightarrow> request" where
  "build_request cfg key provider messages =
     \<lparr>url = API_ENDPOINT cfg,
      bearer = key,
      openrouter_headers = (provider = ''openrouter'' \<or> provider = ''gpt5-nano''),
      req_model = model cfg,
      req_messages = messages,
      max_tokens = 500\<rparr>"

definition callOpenAIWithRetry ::
  "env \<Rightarrow> upstream \<Rightarrow> (nat \<Rightarrow> real) \<Rightarrow> json \<Rightarrow> nat \<Rightarrow> string \<Rightarrow> retry_result" where
  "callOpenAIWithRetry e up rnd messages maxRetries provider =
     (let cfg = select_provider e provider in
      case API_KEY cfg of
        None \<Rightarrow> \<lparr>outcome = Inl (Error (provider @ '' API key is not configured'')),
                  attempts = 0, sleeps = []\<rparr>
      | Some key \<Rightarrow>
          if key = [] then
            \<lparr>outcome = Inl (Error (provider @ '' API key is not configured'')),
             attempts = 0, sleeps = []\<rparr>
          else retry_loop (up (build_request cfg key provider messages)) rnd provider
                 maxRetries 0 None [])"

subsection \<open>Plans and the quota ledger\<close>

record plan_def =
  plan_name :: string
  price :: int
  plan_tokenLimit :: int
  features :: "string list"

definition PLANS :: "string \<Rightarrow> plan_def option" where
  "PLANS key =
     (if key = ''FREE'' then
        Some \<lparr>plan_name = ''Free Pack'', price = 0, plan_tokenLimit = 100000,
              features = [''Basic chat functionality'']\<rparr>
      else if key = ''COLLEGE'' then
        Some \<lparr>plan_name = ''College Pack'', price = 99, plan_tokenLimit = 500000,
              features = [''Enhanced chat functionality'', ''Priority support'']\<rparr>
      else if key = ''LITE'' then
        Some \<lparr>plan_name = ''Lite Pack'', price = 299, plan_tokenLimit = 2000000,
              features = [''Advanced chat functionality'', ''Priority support'',
                          ''Extended history'']\<rparr>
      else if key = ''PRO'' then
        Some \<lparr>plan_name = ''Pro Pack'', price = 599, plan_tokenLimit = 10000000,
              features = [''Premium chat functionality'', ''24/7 support'',
                          ''Unlimited history'', ''Custom models'']\<rparr>
      else None)"

record entitlement =
  userId :: string
  plan :: string
  tokenUsage :: int
  tokenLimit :: int
  expiresAt :: "nat option"

type_synonym ledger = "string \<Rightarrow> entitlement option"

text \<open>
  The ledger functions mutate \<^verbatim>\<open>userEntitlements\<close> in place and return the stored object;
  here each returns its result together with the ledger after the call.
\<close>

definition getUserEntitlements :: "ledger \<Rightarrow> string \<Rightarrow> entitlement \<times> ledger" where
  "getUserEntitlements l uid =
     (case l uid of
        Some e \<Rightarrow> (e, l)
      | None \<Rightarrow>
          (let e = \<lparr>userId = uid, plan = ''FREE'', tokenUsage = 0, tokenLimit = 100000,
                    expiresAt = None\<rparr>
           in (e, l(uid \<mapsto> e))))"

definition updateUserTokenUsage :: "ledger \<Rightarrow> string \<Rightarrow> int \<Rightarrow> entitlement \<times> ledger" where
  "updateUserTokenUsage l uid tokens =
     (let (e, l1) = getUserEntitlements l uid;
          e' = e\<lparr>tokenUsage := tokenUsage e + tokens\<rparr>
      in (e', l1(uid \<mapsto> e')))"

definition hasExceededTokenLimit :: "ledger \<Rightarrow> string \<Rightarrow> bool \<times> ledger" where
  "hasExceededTokenLimit l uid =
     (let (e, l1) = getUserEntitlements l uid
      in (tokenUsage e \<ge> tokenLimit e, l1))"

text \<open>
  \<^verbatim>\<open>upgradeUserPlan\<close> assigns \<^verbatim>\<open>entitlements.plan\<close> first and reads
  \<^verbatim>\<open>PLANS[plan].tokenLimit\<close> second; for a key that is not in \<^verbatim>\<open>PLANS\<close> the second
  statement throws a TypeError and the first assignment stays.
\<close>

definition upgradeUserPlan :: "ledger \<Rightarrow> string \<Rightarrow> string \<Rightarrow> (js_error + entitlement) \<times> ledger" where
  "upgradeUserPlan l uid p =
     (let (e, l1) = getUserEntitlements l uid;
          e1 = e\<lparr>plan := p\<rparr>
      in case PLANS p of
           None \<Rightarrow>
             (Inl (TypeError ''Cannot read properties of undefined (reading 'tokenLimit')''),
              l1(uid \<mapsto> e1))
         | Some pd \<Rightarrow>
             (let e2 = e1\<lparr>tokenLimit := plan_tokenLimit pd, expiresAt := None\<rparr>
              in (Inr e2, l1(uid \<mapsto> e2))))"

text \<open>Sequences of ledger operations, for statements about every reachable ledger.\<close>

datatype ledger_op =
    GetEntitlement string
  | RecordUsage string int
  | HasExceeded string
  | Upgrade string string

fun apply_ledger_op :: "ledger \<Rightarrow> ledger_op \<Rightarrow> ledger" where
  "apply_ledger_op l (GetEntitlement uid) = snd (getUserEntitlements l uid)"
| "apply_ledger_op l (RecordUsage uid tokens) = snd (updateUserTokenUsage l uid tokens)"
| "apply_ledger_op l (HasExceeded uid) = snd (hasExceededTokenLimit l uid)"
| "apply_ledger_op l (Upgrade uid p) = snd (upgradeUserPlan l uid p)"

definition run_ledger :: "ledger_op list \<Rightarrow> ledger" where
  "run_ledger ops = foldl apply_ledger_op Map.empty ops"

subsection \<open>Payment transactions\<close>

record payment_transaction =
  tx_id :: string
  tx_userId :: string
  tx_plan :: string
  amount :: int
  tx_status :: string
  createdAt :: nat
  updatedAt :: nat

type_synonym transactions = "string \<Rightarrow> payment_transaction option"

text \<open>
  \<open>now\<close> is the value of \<^verbatim>\<open>new Date()\<close> (both calls of one invocation are taken to read the
  same instant) and \<open>transactionId\<close> the value of \<^verbatim>\<open>uuidv4()\<close>.
\<close>

definition createPaymentTransaction ::
  "transactions \<Rightarrow> nat \<Rightarrow> string \<Rightarrow> string \<Rightarrow> string
     \<Rightarrow> js_error + (payment_transaction \<times> transactions)" where
  "createPaymentTransaction txs now transactionId uid p =
     (case PLANS p of
        None \<Rightarrow> Inl (TypeError ''Cannot read properties of undefined (reading 'price')'')
      | Some pd \<Rightarrow>
          (let t = \<lparr>tx_id = transactionId, tx_userId = uid, tx_plan = p, amount = price pd,
                    tx_status = ''pending'', createdAt = now, updatedAt = now\<rparr>
           in Inr (t, txs(transactionId \<mapsto> t))))"

text \<open>The result \<open>None\<close> is the \<^verbatim>\<open>null\<close> returned for an unknown transaction id.\<close>

definition updatePaymentTransactionStatus ::
  "transactions \<Rightarrow> nat \<Rightarrow> string \<Rightarrow> string \<Rightarrow> payment_transaction option \<times> transactions" where
  "updatePaymentTransactionStatus txs now transactionId new_status =
     (case txs transactionId of
        None \<Rightarrow> (None, txs)
      | Some t \<Rightarrow>
          (let t' = t\<lparr>tx_status := new_status, updatedAt := now\<rparr>
           in (Some t', txs(transactionId \<mapsto> t'))))"

subsection \<open>The handler of POST /api/chat\<close>

record chat_body =
  chat_messages :: "json option"
  chat_provider :: "string option"
  chat_userId :: "string option"

record token_info =
  used :: int
  totalUsage :: int
  limit :: int
  remaining :: int

text \<open>
  The three shapes of a reply: \<^verbatim>\<open>{error}\<close> with a status, the 402 reply of the quota check
  with \<^verbatim>\<open>paymentRequired: true\<close> and the current entitlement, and the 200 reply with the
  upstream data and \<^verbatim>\<open>tokenInfo\<close>.
\<close>

datatype chat_reply =
    ChatError nat string
  | ChatPaymentRequired string entitlement
  | ChatOk json token_info

fun reply_status :: "chat_reply \<Rightarrow> nat" where
  "reply_status (ChatError code msg) = code"
| "reply_status (ChatPaymentRequired msg e) = 402"
| "reply_status (ChatOk data info) = 200"

text \<open>
  \<^verbatim>\<open>msg.content?.length || 0\<close> as a summand of the token estimate. A \<^verbatim>\<open>content\<close> that is a
  string or an array contributes its length; one that is an object contributes its own
  \<^verbatim>\<open>length\<close> member. When that member is a non-empty string, an array or an object, JavaScript's
  \<^verbatim>\<open>+\<close> concatenates strings and the estimate is no longer a number: that case is outside the
  model and counts 0 here. A message that is \<^verbatim>\<open>null\<close> throws.
\<close>

fun length_or_zero :: "json option \<Rightarrow> int" where
  "length_or_zero (Some (JNum n)) = n"
| "length_or_zero (Some (JBool True)) = 1"
| "length_or_zero _ = 0"

definition content_length :: "json \<Rightarrow> js_error + int" where
  "content_length msg =
     (if msg = JNull then Inl (TypeError ''Cannot read properties of null (reading 'content')'')
      else (case get_prop msg ''content'' of
        None \<Rightarrow> Inr 0
      | Some JNull \<Rightarrow> Inr 0
      | Some c \<Rightarrow> Inr (length_or_zero (get_prop c ''length''))))"

text \<open>\<^verbatim>\<open>messages.reduce((total, msg) => total + (msg.content?.length || 0), 0)\<close>\<close>

fun inputTokens :: "int \<Rightarrow> json list \<Rightarrow> js_error + int" where
  "inputTokens acc [] = Inr acc"
| "inputTokens acc (msg # msgs) =
     (case content_length msg of
        Inl e \<Rightarrow> Inl e
      | Inr n \<Rightarrow> inputTokens (acc + n) msgs)"

text \<open>
  \<^verbatim>\<open>apiResponse.choices[0]?.message?.content?.length || 0\<close>, for data that has passed
  \<open>validate_data\<close>: \<^verbatim>\<open>choices[0]\<close> exists.
\<close>

definition outputTokens :: "json \<Rightarrow> int" where
  "outputTokens data =
     (case get_prop data ''choices'' of
        None \<Rightarrow> 0
      | Some choices \<Rightarrow>
          (case get_first choices of
             None \<Rightarrow> 0
           | Some JNull \<Rightarrow> 0
           | Some choice \<Rightarrow>
               (case message_content choice of
                  None \<Rightarrow> 0
                | Some JNull \<Rightarrow> 0
                | Some c \<Rightarrow> length_or_zero (get_prop c ''length''))))"

text \<open>The \<^verbatim>\<open>catch\<close> block of the handler: one status for each kind of message.\<close>

definition chat_error_reply :: "js_error \<Rightarrow> chat_reply" where
  "chat_error_reply e =
     (if str_includes (message e) ''API key'' then
        ChatError 500 (''Server configuration error: '' @ message e)
      else if str_includes (message e) ''rate limit'' \<or> str_includes (message e) ''Rate limit'' then
        ChatError 429 (message e)
      else if str_includes (message e) ''Payment required'' then
        ChatError 402 (message e)
      else
        ChatError 500 (''Failed to process request: '' @
          (if message e \<noteq> [] then message e else error_name e)))"

text \<open>
  The result of handling one request: the reply, the ledger afterwards, and the upstream
  attempts and sleeps the request caused.
\<close>

record chat_result =
  reply :: chat_reply
  ledger_after :: ledger
  upstream_attempts :: nat
  request_sleeps :: "millis list"

definition account_usage :: "ledger \<Rightarrow> string \<Rightarrow> json list \<Rightarrow> retry_result \<Rightarrow> json \<Rightarrow> chat_result" where
  "account_usage l uid msgs res apiResponse =
     (case inputTokens 0 msgs of
        Inl e \<Rightarrow>
          \<lparr>reply = chat_error_reply e, ledger_after = l,
           upstream_attempts = attempts res, request_sleeps = sleeps res\<rparr>
      | Inr inTokens \<Rightarrow>
          (let totalTokens = inTokens + outputTokens apiResponse;
               (e, l') = updateUserTokenUsage l uid totalTokens
           in \<lparr>reply = ChatOk apiResponse
                  \<lparr>used = totalTokens, totalUsage = tokenUsage e, limit = tokenLimit e,
                   remaining = tokenLimit e - tokenUsage e\<rparr>,
               ledger_after = l',
               upstream_attempts = attempts res, request_sleeps = sleeps res\<rparr>))"

definition dispatch :: "env \<Rightarrow> upstream \<Rightarrow> (nat \<Rightarrow> real) \<Rightarrow> ledger \<Rightarrow> string \<Rightarrow> string \<Rightarrow> json list \<Rightarrow> chat_result" where
  "dispatch e up rnd l uid prov msgs =
     (let res = callOpenAIWithRetry e up rnd (JArr msgs) 5 prov
      in case outcome res of
           Inl err \<Rightarrow>
             \<lparr>reply = chat_error_reply err, ledger_after = l,
              upstream_attempts = attempts res, request_sleeps = sleeps res\<rparr>
         | Inr apiResponse \<Rightarrow> account_usage l uid msgs res apiResponse)"

definition chat_handler :: "env \<Rightarrow> upstream \<Rightarrow> (nat \<Rightarrow> real) \<Rightarrow> ledger \<Rightarrow> chat_body \<Rightarrow> chat_result" where
  "chat_handler e up rnd l body =
     (let prov = (case chat_provider body of None \<Rightarrow> ''openrouter'' | Some p \<Rightarrow> p);
          uid = (case chat_userId body of None \<Rightarrow> ''anonymous'' | Some u \<Rightarrow> u)
      in case chat_messages body of
           Some (JArr msgs) \<Rightarrow>
             (let (exceeded, l1) = hasExceededTokenLimit l uid
              in if exceeded then
                   (let (cur, l2) = getUserEntitlements l1 uid
                    in \<lparr>reply = ChatPaymentRequired
                                  ''Payment required. You have exceeded your token limit.'' cur,
                        ledger_after = l2, upstream_attempts = 0, request_sleeps = []\<rparr>)
                 else dispatch e up rnd l1 uid prov msgs)
         | _ \<Rightarrow>
             \<lparr>reply = ChatError 400 ''Messages array is required'', ledger_after = l,
              upstream_attempts = 0, request_sleeps = []\<rparr>)"

subsection \<open>The handler of POST /api/payment/verify\<close>

record verify_body =
  v_userId :: "string option"
  v_plan :: "string option"
  v_transactionId :: "string option"
  razorpayPaymentId :: "string option"
  razorpayOrderId :: "string option"
  razorpaySignature :: "string option"

record server =
  userEntitlements :: ledger
  paymentTransactions :: transactions

datatype verify_reply =
    VerifyError nat string
  | VerifySuccess string entitlement

text \<open>A body field passes \<^verbatim>\<open>!field\<close> when it is present and not the empty string.\<close>

definition present :: "string option \<Rightarrow> bool" where
  "present f = (case f of None \<Rightarrow> False | Some s \<Rightarrow> s \<noteq> [])"

text \<open>
  \<open>razorpay\<close> says whether \<^verbatim>\<open>razorpayInstance\<close> was created at start-up; \<open>now\<close> is the clock.
  An exception of \<^verbatim>\<open>upgradeUserPlan\<close> is caught by the handler and answered with status 500.
\<close>

definition verify_handler :: "bool \<Rightarrow> nat \<Rightarrow> server \<Rightarrow> verify_body \<Rightarrow> verify_reply \<times> server" where
  "verify_handler razorpay now s body =
     (case (v_userId body, v_plan body, v_transactionId body) of
        (Some uid, Some p, Some tid) \<Rightarrow>
          (if uid = [] \<or> p = [] \<or> tid = [] \<or> \<not> present (razorpayPaymentId body)
              \<or> \<not> present (razorpayOrderId body) \<or> \<not> present (razorpaySignature body) then
             (VerifyError 400 ''Missing required parameters'', s)
           else if \<not> razorpay then
             (VerifyError 500 ''Payment system not configured'', s)
           else
             (let (t, txs) = updatePaymentTransactionStatus (paymentTransactions s) now tid
                               ''completed'';
                  (r, l1) = upgradeUserPlan (userEntitlements s) uid p
              in case r of
                   Inl err \<Rightarrow>
                     (VerifyError 500 ''Failed to verify payment'',
                      \<lparr>userEntitlements = l1, paymentTransactions = txs\<rparr>)
                 | Inr upgraded \<Rightarrow>
                     (let (cur, l2) = getUserEntitlements l1 uid
                      in (VerifySuccess ''Payment verified successfully'' cur,
                          \<lparr>userEntitlements = l2, paymentTransactions = txs\<rparr>))))
      | _ \<Rightarrow> (VerifyError 400 ''Missing required parameters'', s))"

subsection \<open>Vocabulary of the statements\<close>

text \<open>An attempt is rate limited when the upstream answers it with status 429.\<close>

definition is_429 :: "fetch_result \<Rightarrow> bool" where
  "is_429 res = (case res of FetchResolves resp \<Rightarrow> status resp = 429 | FetchThrows e \<Rightarrow> False)"

text \<open>The delays slept after the attempts \<open>a, \<dots>, b - 1\<close> when each of them is rate limited.\<close>

definition rate_limit_delays :: "(nat \<Rightarrow> fetch_result) \<Rightarrow> (nat \<Rightarrow> real) \<Rightarrow> nat \<Rightarrow> nat \<Rightarrow> millis list" where
  "rate_limit_delays fetch rnd a b =
     map (\<lambda>i. case fetch i of
                 FetchResolves resp \<Rightarrow> rate_limit_delay (retry_after resp) i (rnd i)
               | FetchThrows e \<Rightarrow> NaN) [a..<b]"

text \<open>
  The value at the path \<^verbatim>\<open>choices[0].message.content\<close> of a response body, read without
  any check on the way; \<open>None\<close> when some step of the path is missing.
\<close>

definition completion_content :: "json \<Rightarrow> json option" where
  "completion_content data =
     (case get_prop data ''choices'' of
        None \<Rightarrow> None
      | Some choices \<Rightarrow>
          (case get_first choices of
             None \<Rightarrow> None
           | Some choice \<Rightarrow> message_content choice))"

text \<open>
  An error is plain when the \<^verbatim>\<open>catch\<close> block of the retrier finds no reason to retry it: it
  is no TypeError and its message mentions neither \<^verbatim>\<open>fetch\<close> nor \<^verbatim>\<open>rate limit\<close>.
\<close>

definition plain_error :: "js_error \<Rightarrow> bool" where
  "plain_error e = (\<not> instanceof_TypeError e \<and> \<not> str_includes (message e) ''fetch''
      \<and> \<not> str_includes (message e) ''rate limit'')"

subsection \<open>Concrete scenarios\<close>

text \<open>
  An environment with the OpenRouter key only; a chat completion with the given text; responses
  with and without a JSON body; an upstream that gives every attempt the same response;
  random sources that always return 0 and always return one half.
\<close>

definition example_env :: env where
  "example_env = \<lparr>OPENROUTER_API_KEY = Some ''sk-or-test'', OPENAI_GPT5_NANO_KEY = None\<rparr>"

definition completion :: "string \<Rightarrow> json" where
  "completion txt =
     JObj [(''choices'',
            JArr [JObj [(''message'',
                         JObj [(''role'', JStr ''assistant''), (''content'', JStr txt)])]])]"

definition json_response :: "json \<Rightarrow> response" where
  "json_response data =
     \<lparr>status = 200, retry_after = None, body_text = [], body_json = Inr data\<rparr>"

definition error_response :: "nat \<Rightarrow> string \<Rightarrow> response" where
  "error_response code txt =
     \<lparr>status = code, retry_after = None, body_text = txt,
      body_json = Inl (Error ''Unexpected token in JSON'')\<rparr>"

definition always_responds :: "response \<Rightarrow> upstream" where
  "always_responds resp req attempt = FetchResolves resp"

definition no_jitter :: "nat \<Rightarrow> real" where
  "no_jitter attempt = 0"


text \<open>The request the retrier sends for an empty conversation with the OpenRouter provider.\<close>

definition example_request :: request where
  "example_request =
     build_request (select_provider example_env ''openrouter'') ''sk-or-test'' ''openrouter''
       (JArr [])"

text \<open>
  An upstream that answers the first \<open>n\<close> attempts with status 429 and every later attempt with
  the given response; a 429 response that carries a \<^verbatim>\<open>retry-after\<close> header.
\<close>

definition rate_limited_then :: "nat \<Rightarrow> response \<Rightarrow> upstream" where
  "rate_limited_then n resp req attempt =
     FetchResolves (if attempt < n then error_response 429 ''Too Many Requests'' else resp)"




text \<open>A transaction is created at time 1, settled as completed at time 2 and settled again at time 3.\<close>

definition example_created :: transactions where
  "example_created =
     (case createPaymentTransaction Map.empty 1 ''tx1'' ''u1'' ''LITE'' of
        Inl e \<Rightarrow> Map.empty
      | Inr (t, txs) \<Rightarrow> txs)"

definition example_completed :: transactions where
  "example_completed = snd (updatePaymentTransactionStatus example_created 2 ''tx1'' ''completed'')"

definition example_settled_again :: transactions where
  "example_settled_again = snd (updatePaymentTransactionStatus example_completed 3 ''tx1'' ''failed'')"

text \<open>
  Two bodies for \<^verbatim>\<open>/api/payment/verify\<close> with all six fields, sent to a server that has
  stored nothing yet: one names a plan that is not in the catalogue, the other a catalogue plan
  and a transaction id that was never issued.
\<close>

definition empty_server :: server where
  "empty_server = \<lparr>userEntitlements = Map.empty, paymentTransactions = Map.empty\<rparr>"

definition gold_body :: verify_body where
  "gold_body = \<lparr>v_userId = Some ''u1'', v_plan = Some ''GOLD'', v_transactionId = Some ''tx1'',
      razorpayPaymentId = Some ''pay_1'', razorpayOrderId = Some ''order_1'',
      razorpaySignature = Some ''sig''\<rparr>"

definition lite_body :: verify_body where
  "lite_body = \<lparr>v_userId = Some ''u1'', v_plan = Some ''LITE'',
      v_transactionId = Some ''no-such-tx'',
      razorpayPaymentId = Some ''pay_1'', razorpayOrderId = Some ''order_1'',
      razorpaySignature = Some ''sig''\<rparr>"

text \<open>
  Three bodies for \<^verbatim>\<open>/api/chat\<close>: an empty list of messages, a \<open>messages\<close> field that is
  an object instead of an array, and one message for a provider that does not exist.
\<close>

definition empty_messages_body :: chat_body where
  "empty_messages_body =
     \<lparr>chat_messages = Some (JArr []), chat_provider = None, chat_userId = None\<rparr>"

definition object_messages_body :: chat_body where
  "object_messages_body =
     \<lparr>chat_messages = Some (JObj [(''role'', JStr ''user''), (''content'', JStr ''Hi'')]),
      chat_provider = None, chat_userId = None\<rparr>"

definition unknown_provider_body :: chat_body where
  "unknown_provider_body =
     \<lparr>chat_messages = Some (JArr [JObj [(''role'', JStr ''user''), (''content'', JStr ''Hi'')]]),
      chat_provider = Some ''unknownX'', chat_userId = Some ''u1''\<rparr>"

section \<open>The quota ledger\<close>

text \<open>No operation ever stores an expiry date: \<open>expiresAt\<close> is \<^verbatim>\<open>null\<close> in every reachable ledger.\<close>

lemma getUserEntitlements_expiresAt:
  "(\<And>u e. l u = Some e \<Longrightarrow> expiresAt e = None) \<Longrightarrow>
   expiresAt (fst (getUserEntitlements l uid)) = None \<and>
   (\<forall>u e. snd (getUserEntitlements l uid) u = Some e \<longrightarrow> expiresAt e = None)"
  by (auto simp: getUserEntitlements_def Let_def split: option.splits)

lemma apply_ledger_op_expiresAt:
  assumes "\<And>u e. l u = Some e \<Longrightarrow> expiresAt e = None"
  shows "apply_ledger_op l opn u = Some e \<Longrightarrow> expiresAt e = None"
  using assms
  by (cases opn)
     (auto simp: getUserEntitlements_def updateUserTokenUsage_def hasExceededTokenLimit_def
        upgradeUserPlan_def Let_def split: option.splits if_splits)

lemma run_ledger_snoc: "run_ledger (ops @ [opn]) = apply_ledger_op (run_ledger ops) opn"
  by (simp add: run_ledger_def)

lemma run_ledger_expiresAt: "run_ledger ops u = Some e \<Longrightarrow> expiresAt e = None"
proof (induction ops arbitrary: u e rule: rev_induct)
  case Nil
  then show ?case by (simp add: run_ledger_def)
next
  case (snoc opn ops)
  then show ?case
    using apply_ledger_op_expiresAt[of "run_ledger ops" opn u e] by (auto simp: run_ledger_snoc)
qed

text \<open>
  Claim C7. In every ledger reached by a sequence of ledger operations,
  \<^verbatim>\<open>hasExceededTokenLimit(u)\<close> is true exactly when the entitlement of \<open>u\<close> (created on
  the FREE plan if \<open>u\<close> is new) has \<open>tokenUsage \<ge> tokenLimit\<close>; usage equal to the limit
  counts as exceeded, a user never seen before has not exceeded, and the call leaves the
  ledger as \<^verbatim>\<open>getUserEntitlements(u)\<close> leaves it.
\<close>

theorem hasExceeded_iff_usage_reaches_limit:
  "fst (hasExceededTokenLimit (run_ledger ops) uid)
     = (tokenLimit (fst (getUserEntitlements (run_ledger ops) uid))
          \<le> tokenUsage (fst (getUserEntitlements (run_ledger ops) uid)))
   \<and> snd (hasExceededTokenLimit (run_ledger ops) uid) = snd (getUserEntitlements (run_ledger ops) uid)
   \<and> (case run_ledger ops uid of
         None \<Rightarrow> \<not> fst (hasExceededTokenLimit (run_ledger ops) uid)
       | Some e \<Rightarrow>
           fst (hasExceededTokenLimit (run_ledger ops) uid) = (tokenLimit e \<le> tokenUsage e)
           \<and> (tokenUsage e = tokenLimit e \<longrightarrow> fst (hasExceededTokenLimit (run_ledger ops) uid)))"
  by (simp add: hasExceededTokenLimit_def getUserEntitlements_def Let_def
        split: option.splits prod.splits)

theorem hasExceeded_iff_usage_reaches_limit_witness:
  "fst (hasExceededTokenLimit (run_ledger [RecordUsage ''u1'' 100000]) ''u1'')
   \<and> \<not> fst (hasExceededTokenLimit (run_ledger [RecordUsage ''u1'' 99999]) ''u1'')
   \<and> \<not> fst (hasExceededTokenLimit (run_ledger [RecordUsage ''u1'' 100000, Upgrade ''u1'' ''LITE''])
             ''u1'')"
  using hasExceeded_iff_usage_reaches_limit[of "[RecordUsage ''u1'' 100000]" "''u1''"]
    hasExceeded_iff_usage_reaches_limit[of "[RecordUsage ''u1'' 99999]" "''u1''"]
    hasExceeded_iff_usage_reaches_limit[of "[RecordUsage ''u1'' 100000, Upgrade ''u1'' ''LITE'']"
      "''u1''"]
  by (simp add: run_ledger_def updateUserTokenUsage_def getUserEntitlements_def
        upgradeUserPlan_def PLANS_def Let_def)

text \<open>
  Claim C6. In every reachable ledger, for every user and every key \<open>p\<close> of the plan
  catalogue, \<^verbatim>\<open>upgradeUserPlan(u, p)\<close> returns and stores an entitlement whose plan is \<open>p\<close> and
  whose token limit is the catalogue's limit for \<open>p\<close>, with the user's \<open>tokenUsage\<close>,
  \<open>expiresAt\<close> and \<open>userId\<close> as they were before the call; afterwards the user has exceeded
  exactly when the old usage reaches the new limit. (The function assigns \<^verbatim>\<open>null\<close> to
  \<open>expiresAt\<close>, which is the value the field has in every reachable ledger.)
\<close>

theorem upgrade_sets_plan_and_limit_only:
  assumes "PLANS p = Some pd"
  shows "\<exists>after.
      fst (upgradeUserPlan (run_ledger ops) uid p) = Inr after
    \<and> snd (upgradeUserPlan (run_ledger ops) uid p) uid = Some after
    \<and> plan after = p
    \<and> tokenLimit after = plan_tokenLimit pd
    \<and> tokenUsage after = tokenUsage (fst (getUserEntitlements (run_ledger ops) uid))
    \<and> expiresAt after = expiresAt (fst (getUserEntitlements (run_ledger ops) uid))
    \<and> userId after = userId (fst (getUserEntitlements (run_ledger ops) uid))
    \<and> fst (hasExceededTokenLimit (snd (upgradeUserPlan (run_ledger ops) uid p)) uid)
        = (plan_tokenLimit pd \<le> tokenUsage (fst (getUserEntitlements (run_ledger ops) uid)))"
proof -
  have inv: "expiresAt (fst (getUserEntitlements (run_ledger ops) uid)) = None"
    using getUserEntitlements_expiresAt[of "run_ledger ops" uid] run_ledger_expiresAt by blast
  show ?thesis
    using assms inv
    by (auto simp: upgradeUserPlan_def hasExceededTokenLimit_def getUserEntitlements_def Let_def
          split: option.splits prod.splits)
qed

theorem upgrade_sets_plan_and_limit_only_witness:
  "fst (hasExceededTokenLimit (run_ledger [RecordUsage ''u1'' 100050]) ''u1'')
   \<and> fst (upgradeUserPlan (run_ledger [RecordUsage ''u1'' 100050]) ''u1'' ''LITE'')
       = Inr \<lparr>userId = ''u1'', plan = ''LITE'', tokenUsage = 100050, tokenLimit = 2000000,
              expiresAt = None\<rparr>
   \<and> \<not> fst (hasExceededTokenLimit
             (snd (upgradeUserPlan (run_ledger [RecordUsage ''u1'' 100050]) ''u1'' ''LITE'')) ''u1'')"
proof -
  have lite: "PLANS ''LITE'' = Some \<lparr>plan_name = ''Lite Pack'', price = 299,
      plan_tokenLimit = 2000000,
      features = [''Advanced chat functionality'', ''Priority support'', ''Extended history'']\<rparr>"
    by (simp add: PLANS_def)
  have usage: "fst (getUserEntitlements (run_ledger [RecordUsage ''u1'' 100050]) ''u1'')
      = \<lparr>userId = ''u1'', plan = ''FREE'', tokenUsage = 100050, tokenLimit = 100000,
         expiresAt = None\<rparr>"
    by (simp add: run_ledger_def updateUserTokenUsage_def getUserEntitlements_def Let_def)
  have before: "fst (hasExceededTokenLimit (run_ledger [RecordUsage ''u1'' 100050]) ''u1'')"
    by (simp add: run_ledger_def updateUserTokenUsage_def getUserEntitlements_def
          hasExceededTokenLimit_def Let_def)
  from upgrade_sets_plan_and_limit_only[OF lite, of "[RecordUsage ''u1'' 100050]" "''u1''"]
  obtain after where
    a: "fst (upgradeUserPlan (run_ledger [RecordUsage ''u1'' 100050]) ''u1'' ''LITE'') = Inr after"
      "plan after = ''LITE''" "tokenLimit after = 2000000" "tokenUsage after = 100050"
      "expiresAt after = None" "userId after = ''u1''"
      "\<not> fst (hasExceededTokenLimit
             (snd (upgradeUserPlan (run_ledger [RecordUsage ''u1'' 100050]) ''u1'' ''LITE'')) ''u1'')"
    using usage by auto
  then have "after = \<lparr>userId = ''u1'', plan = ''LITE'', tokenUsage = 100050, tokenLimit = 2000000,
              expiresAt = None\<rparr>"
    by simp
  with a before show ?thesis by simp
qed

section \<open>Payment transactions\<close>

text \<open>
  Claim C8 as stated fails: a transaction that has been settled as completed is settled again
  by a later call, which overwrites both its status and its \<open>updatedAt\<close>.
\<close>

theorem settle_terminal_transaction_counterexample:
  "map_option tx_status (example_created ''tx1'') = Some ''pending''
   \<and> map_option tx_status (example_completed ''tx1'') = Some ''completed''
   \<and> map_option updatedAt (example_completed ''tx1'') = Some 2
   \<and> map_option tx_status (example_settled_again ''tx1'') = Some ''failed''
   \<and> map_option updatedAt (example_settled_again ''tx1'') = Some 3"
  by (simp add: example_settled_again_def example_completed_def example_created_def
        createPaymentTransaction_def updatePaymentTransactionStatus_def PLANS_def Let_def)

text \<open>
  Claim C8, amended. \<^verbatim>\<open>createPaymentTransaction\<close> for a catalogue plan stores a transaction
  in status \<^verbatim>\<open>pending\<close>. \<^verbatim>\<open>updatePaymentTransactionStatus\<close> returns \<^verbatim>\<open>null\<close> for an unknown
  id and changes nothing; for a stored transaction it sets the status to its argument and
  \<open>updatedAt\<close> to the current time and keeps every other field, whatever the status was
  before: of two successive calls the second one wins.
\<close>

theorem settle_overwrites_status_and_updatedAt:
  "(PLANS p = Some pd \<longrightarrow>
      createPaymentTransaction txs now tid uid p
        = Inr (\<lparr>tx_id = tid, tx_userId = uid, tx_plan = p, amount = price pd,
                 tx_status = ''pending'', createdAt = now, updatedAt = now\<rparr>,
               txs(tid \<mapsto> \<lparr>tx_id = tid, tx_userId = uid, tx_plan = p, amount = price pd,
                 tx_status = ''pending'', createdAt = now, updatedAt = now\<rparr>)))
   \<and> (txs tid = None \<longrightarrow> updatePaymentTransactionStatus txs now1 tid s1 = (None, txs))
   \<and> (txs tid = Some t \<longrightarrow>
        updatePaymentTransactionStatus txs now1 tid s1
          = (Some (t\<lparr>tx_status := s1, updatedAt := now1\<rparr>),
             txs(tid \<mapsto> t\<lparr>tx_status := s1, updatedAt := now1\<rparr>))
        \<and> updatePaymentTransactionStatus
             (snd (updatePaymentTransactionStatus txs now1 tid s1)) now2 tid s2
          = (Some (t\<lparr>tx_status := s2, updatedAt := now2\<rparr>),
             txs(tid \<mapsto> t\<lparr>tx_status := s2, updatedAt := now2\<rparr>)))"
  by (simp add: createPaymentTransaction_def updatePaymentTransactionStatus_def Let_def)

theorem settle_overwrites_status_and_updatedAt_witness:
  "example_created ''tx1''
     = Some \<lparr>tx_id = ''tx1'', tx_userId = ''u1'', tx_plan = ''LITE'', amount = 299,
             tx_status = ''pending'', createdAt = 1, updatedAt = 1\<rparr>
   \<and> fst (updatePaymentTransactionStatus example_created 2 ''other'' ''completed'') = None
   \<and> fst (updatePaymentTransactionStatus example_created 2 ''tx1'' ''completed'')
     = Some \<lparr>tx_id = ''tx1'', tx_userId = ''u1'', tx_plan = ''LITE'', amount = 299,
             tx_status = ''completed'', createdAt = 1, updatedAt = 2\<rparr>
   \<and> fst (updatePaymentTransactionStatus
            (snd (updatePaymentTransactionStatus example_created 2 ''tx1'' ''completed''))
            3 ''tx1'' ''failed'')
     = Some \<lparr>tx_id = ''tx1'', tx_userId = ''u1'', tx_plan = ''LITE'', amount = 299,
             tx_status = ''failed'', createdAt = 1, updatedAt = 3\<rparr>"
proof -
  let ?lite = "\<lparr>plan_name = ''Lite Pack'', price = 299, plan_tokenLimit = 2000000,
      features = [''Advanced chat functionality'', ''Priority support'', ''Extended history'']\<rparr>"
  let ?t = "\<lparr>tx_id = ''tx1'', tx_userId = ''u1'', tx_plan = ''LITE'', amount = 299,
             tx_status = ''pending'', createdAt = 1, updatedAt = 1\<rparr>"
  have lite: "PLANS ''LITE'' = Some ?lite"
    by (simp add: PLANS_def)
  have created: "example_created ''tx1'' = Some ?t" and other: "example_created ''other'' = None"
    using lite
      settle_overwrites_status_and_updatedAt[where p = "''LITE''" and pd = ?lite
        and txs = Map.empty and now = 1 and tid = "''tx1''" and uid = "''u1''" and t = ?t
        and ?now1.0 = 2 and ?s1.0 = "''completed''" and ?now2.0 = 3 and ?s2.0 = "''failed''"]
    by (simp_all add: example_created_def)
  note at_other = settle_overwrites_status_and_updatedAt[where p = "''LITE''" and pd = ?lite
        and txs = example_created and now = 1 and tid = "''other''" and uid = "''u1''" and t = ?t
        and ?now1.0 = 2 and ?s1.0 = "''completed''" and ?now2.0 = 3 and ?s2.0 = "''failed''"]
  note at_tx1 = settle_overwrites_status_and_updatedAt[where p = "''LITE''" and pd = ?lite
        and txs = example_created and now = 1 and tid = "''tx1''" and uid = "''u1''" and t = ?t
        and ?now1.0 = 2 and ?s1.0 = "''completed''" and ?now2.0 = 3 and ?s2.0 = "''failed''"]
  have unknown: "updatePaymentTransactionStatus example_created 2 ''other'' ''completed''
       = (None, example_created)"
    using at_other other by blast
  have known: "updatePaymentTransactionStatus example_created 2 ''tx1'' ''completed''
       = (Some (?t\<lparr>tx_status := ''completed'', updatedAt := 2\<rparr>),
          example_created(''tx1'' \<mapsto> ?t\<lparr>tx_status := ''completed'', updatedAt := 2\<rparr>))"
    "updatePaymentTransactionStatus
            (snd (updatePaymentTransactionStatus example_created 2 ''tx1'' ''completed''))
            3 ''tx1'' ''failed''
       = (Some (?t\<lparr>tx_status := ''failed'', updatedAt := 3\<rparr>),
          example_created(''tx1'' \<mapsto> ?t\<lparr>tx_status := ''failed'', updatedAt := 3\<rparr>))"
    using at_tx1 created by blast+
  show ?thesis
    using created unknown known by simp
qed

section \<open>Payment verification\<close>

lemma PLANS_key_not_empty: "PLANS p = Some pd \<Longrightarrow> p \<noteq> []"
  by (auto simp: PLANS_def)

text \<open>
  Claim C10 as stated fails: a body with all six fields whose plan is not in the catalogue is
  answered with status 500, not with \<^verbatim>\<open>success: true\<close>.
\<close>

theorem verify_unknown_plan_counterexample:
  "fst (verify_handler True 5 empty_server gold_body)
     = VerifyError 500 ''Failed to verify payment''"
  by (simp add: verify_handler_def gold_body_def empty_server_def present_def
        updatePaymentTransactionStatus_def upgradeUserPlan_def getUserEntitlements_def
        PLANS_def Let_def)

text \<open>
  Claim C10, amended. When the payment gateway is configured, all six body fields are present
  and non-empty and the plan is a key of the catalogue, the handler answers
  \<^verbatim>\<open>success: true\<close> with the upgraded entitlement, whether or not the transaction id is
  known: for an unknown id the transaction store is left as it was and no error is reported;
  for a known id that transaction becomes \<^verbatim>\<open>completed\<close>.
\<close>

theorem verify_upgrades_without_transaction:
  assumes "v_userId body = Some uid" "uid \<noteq> []" "v_plan body = Some p" "PLANS p = Some pd"
    "v_transactionId body = Some tid" "tid \<noteq> []"
    "present (razorpayPaymentId body)" "present (razorpayOrderId body)"
    "present (razorpaySignature body)"
  shows "\<exists>cur s'.
       verify_handler True now s body = (VerifySuccess ''Payment verified successfully'' cur, s')
     \<and> plan cur = p \<and> tokenLimit cur = plan_tokenLimit pd
     \<and> userEntitlements s' uid = Some cur
     \<and> tokenUsage cur = tokenUsage (fst (getUserEntitlements (userEntitlements s) uid))
     \<and> (paymentTransactions s tid = None \<longrightarrow> paymentTransactions s' = paymentTransactions s)
     \<and> (\<forall>t. paymentTransactions s tid = Some t \<longrightarrow>
           paymentTransactions s'
             = (paymentTransactions s)(tid \<mapsto> t\<lparr>tx_status := ''completed'', updatedAt := now\<rparr>))"
proof -
  have "p \<noteq> []" using assms(4) by (rule PLANS_key_not_empty)
  with assms show ?thesis
    by (auto simp: verify_handler_def updatePaymentTransactionStatus_def upgradeUserPlan_def
          getUserEntitlements_def Let_def split: option.splits prod.splits)
qed

theorem verify_upgrades_without_transaction_witness:
  "paymentTransactions empty_server ''no-such-tx'' = None
   \<and> verify_handler True 5 empty_server lite_body
     = (VerifySuccess ''Payment verified successfully''
          \<lparr>userId = ''u1'', plan = ''LITE'', tokenUsage = 0, tokenLimit = 2000000,
           expiresAt = None\<rparr>,
        \<lparr>userEntitlements = Map.empty(''u1'' \<mapsto>
           \<lparr>userId = ''u1'', plan = ''LITE'', tokenUsage = 0, tokenLimit = 2000000,
            expiresAt = None\<rparr>),
         paymentTransactions = Map.empty\<rparr>)"
proof -
  have lite: "PLANS ''LITE'' = Some \<lparr>plan_name = ''Lite Pack'', price = 299,
      plan_tokenLimit = 2000000,
      features = [''Advanced chat functionality'', ''Priority support'', ''Extended history'']\<rparr>"
    by (simp add: PLANS_def)
  have fields: "v_userId lite_body = Some ''u1''" "''u1'' \<noteq> []" "v_plan lite_body = Some ''LITE''"
    "v_transactionId lite_body = Some ''no-such-tx''" "''no-such-tx'' \<noteq> []"
    "present (razorpayPaymentId lite_body)" "present (razorpayOrderId lite_body)"
    "present (razorpaySignature lite_body)"
    by (simp_all add: lite_body_def present_def)
  from verify_upgrades_without_transaction[OF fields(1,2,3) lite fields(4,5,6,7,8),
      of 5 empty_server]
  obtain cur s' where r:
    "verify_handler True 5 empty_server lite_body
       = (VerifySuccess ''Payment verified successfully'' cur, s')"
    "plan cur = ''LITE''" "tokenLimit cur = 2000000"
    by auto
  have "verify_handler True 5 empty_server lite_body
     = (VerifySuccess ''Payment verified successfully''
          \<lparr>userId = ''u1'', plan = ''LITE'', tokenUsage = 0, tokenLimit = 2000000,
           expiresAt = None\<rparr>,
        \<lparr>userEntitlements = Map.empty(''u1'' \<mapsto>
           \<lparr>userId = ''u1'', plan = ''LITE'', tokenUsage = 0, tokenLimit = 2000000,
            expiresAt = None\<rparr>),
         paymentTransactions = Map.empty\<rparr>)"
    by (simp add: verify_handler_def lite_body_def empty_server_def present_def
          updatePaymentTransactionStatus_def upgradeUserPlan_def getUserEntitlements_def
          PLANS_def Let_def)
  with r show ?thesis by (simp add: empty_server_def)
qed

section \<open>Decimal numbers\<close>












section \<open>The retrier\<close>

subsection \<open>One iteration of the loop\<close>

lemma try_block_429:
  "status resp = 429 \<Longrightarrow> attempt < maxRetries \<Longrightarrow>
   try_block prov maxRetries attempt r (FetchResolves resp)
     = Slept (rate_limit_delay (retry_after resp) attempt r)"
  by (simp add: try_block_def ok_def rate_limited_def)

lemma try_block_429_last:
  "status resp = 429 \<Longrightarrow>
   try_block prov maxRetries maxRetries r (FetchResolves resp) = Thrown (rate_limit_error prov)"
  by (simp add: try_block_def ok_def rate_limited_def)

lemma retry_loop_Slept:
  "attempt \<le> maxRetries \<Longrightarrow>
   try_block prov maxRetries attempt (rnd attempt) (fetch attempt) = Slept d \<Longrightarrow>
   retry_loop fetch rnd prov maxRetries attempt lastError sl
     = retry_loop fetch rnd prov maxRetries (Suc attempt) lastError (sl @ [d])"
  by (subst retry_loop.simps) simp

lemma retry_loop_Returned:
  "attempt \<le> maxRetries \<Longrightarrow>
   try_block prov maxRetries attempt (rnd attempt) (fetch attempt) = Returned data \<Longrightarrow>
   retry_loop fetch rnd prov maxRetries attempt lastError sl
     = \<lparr>outcome = Inr data, attempts = Suc attempt, sleeps = sl\<rparr>"
  by (subst retry_loop.simps) simp

lemma retry_loop_Rethrow:
  "attempt \<le> maxRetries \<Longrightarrow>
   try_block prov maxRetries attempt (rnd attempt) (fetch attempt) = Thrown e \<Longrightarrow>
   catch_block maxRetries attempt (rnd attempt) e = Rethrow e' \<Longrightarrow>
   retry_loop fetch rnd prov maxRetries attempt lastError sl
     = \<lparr>outcome = Inl e', attempts = Suc attempt, sleeps = sl\<rparr>"
  by (subst retry_loop.simps) simp

lemma retry_loop_Retry_sleep:
  "attempt \<le> maxRetries \<Longrightarrow>
   try_block prov maxRetries attempt (rnd attempt) (fetch attempt) = Thrown e \<Longrightarrow>
   catch_block maxRetries attempt (rnd attempt) e = Retry (Some d) \<Longrightarrow>
   retry_loop fetch rnd prov maxRetries attempt lastError sl
     = retry_loop fetch rnd prov maxRetries (Suc attempt) (Some e) (sl @ [d])"
  by (subst retry_loop.simps) simp

lemma retry_loop_Retry_now:
  "attempt \<le> maxRetries \<Longrightarrow>
   try_block prov maxRetries attempt (rnd attempt) (fetch attempt) = Thrown e \<Longrightarrow>
   catch_block maxRetries attempt (rnd attempt) e = Retry None \<Longrightarrow>
   retry_loop fetch rnd prov maxRetries attempt lastError sl
     = retry_loop fetch rnd prov maxRetries (Suc attempt) (Some e) sl"
  by (subst retry_loop.simps) simp

lemma retry_loop_skip_429:
  "k \<le> maxRetries \<Longrightarrow> attempt \<le> k \<Longrightarrow> (\<And>i. attempt \<le> i \<Longrightarrow> i < k \<Longrightarrow> is_429 (fetch i)) \<Longrightarrow>
   retry_loop fetch rnd prov maxRetries attempt lastError sl
     = retry_loop fetch rnd prov maxRetries k lastError (sl @ rate_limit_delays fetch rnd attempt k)"
proof (induction "k - attempt" arbitrary: attempt sl)
  case 0
  then show ?case by (simp add: rate_limit_delays_def)
next
  case (Suc n)
  then have lt: "attempt < k" by simp
  with Suc.prems have "is_429 (fetch attempt)" by simp
  then obtain resp where resp: "fetch attempt = FetchResolves resp" "status resp = 429"
    by (auto simp: is_429_def split: fetch_result.splits)
  have step: "retry_loop fetch rnd prov maxRetries attempt lastError sl
     = retry_loop fetch rnd prov maxRetries (Suc attempt) lastError
         (sl @ [rate_limit_delay (retry_after resp) attempt (rnd attempt)])"
    using lt Suc.prems(1) resp by (intro retry_loop_Slept) (simp_all add: try_block_429)
  have "retry_loop fetch rnd prov maxRetries (Suc attempt) lastError
         (sl @ [rate_limit_delay (retry_after resp) attempt (rnd attempt)])
     = retry_loop fetch rnd prov maxRetries k lastError
         ((sl @ [rate_limit_delay (retry_after resp) attempt (rnd attempt)])
            @ rate_limit_delays fetch rnd (Suc attempt) k)"
    using Suc.hyps(2) lt Suc.prems by (intro Suc.hyps(1)) simp_all
  moreover have "rate_limit_delays fetch rnd attempt k
      = rate_limit_delay (retry_after resp) attempt (rnd attempt)
          # rate_limit_delays fetch rnd (Suc attempt) k"
    using lt resp by (simp add: rate_limit_delays_def upt_conv_Cons)
  ultimately show ?case using step by simp
qed

lemma length_rate_limit_delays: "length (rate_limit_delays fetch rnd a b) = b - a"
  by (simp add: rate_limit_delays_def)

lemma completion_content_falsy:
  "\<not> truthy v \<Longrightarrow> get_first v = None" "\<not> truthy v \<Longrightarrow> message_content v = None"
  by (cases v; simp add: message_content_def)+

lemma validate_data_Returned_iff:
  "validate_data prov data = Returned d \<longleftrightarrow> d = data \<and> (\<exists>s. completion_content data = Some (JStr s))"
  apply (cases "data = JNull")
   apply (simp add: validate_data_def completion_content_def)
  apply (auto simp: validate_data_def completion_content_def check_content_def completion_content_falsy
        split: option.splits json.splits if_splits)
  done

lemma validate_data_Thrown:
  "data \<noteq> JNull \<Longrightarrow> \<not> (\<exists>s. completion_content data = Some (JStr s)) \<Longrightarrow>
   \<exists>e \<in> {invalid_structure prov, no_content prov, not_a_string prov}. validate_data prov data = Thrown e"
  by (auto simp: validate_data_def completion_content_def check_content_def completion_content_falsy
        split: option.splits json.splits if_splits)

lemma catch_block_last: "catch_block maxRetries maxRetries r e = Rethrow e"
  by (simp add: catch_block_def)

lemma catch_payment_required: "catch_block maxRetries attempt r payment_required_error = Rethrow payment_required_error"
  by (simp add: catch_block_def payment_required_error_def)

lemma payment_required_not_retried:
  "attempt \<le> maxRetries \<Longrightarrow> fetch attempt = FetchResolves resp \<Longrightarrow> status resp = 402 \<Longrightarrow>
   retry_loop fetch rnd prov maxRetries attempt lastError sl
     = \<lparr>outcome = Inl payment_required_error, attempts = Suc attempt, sleeps = sl\<rparr>"
  by (rule retry_loop_Rethrow[where e = payment_required_error])
     (simp_all add: try_block_def ok_def catch_payment_required)

subsection \<open>Substrings of error messages\<close>

lemma str_includes_sublist: "str_includes s t \<longleftrightarrow> sublist t s"
  by (induction s) (simp_all add: sublist_Cons_right)

lemma sublist_separator:
  "sublist t (xs @ c # ys) \<longleftrightarrow>
     sublist t xs \<or> sublist t ys \<or> (\<exists>t1 t2. t = t1 @ c # t2 \<and> suffix t1 xs \<and> prefix t2 ys)"
proof
  assume "sublist t (xs @ c # ys)"
  then consider "sublist t xs" | "sublist t (c # ys)"
    | x1 x2 where "t = x1 @ x2" "suffix x1 xs" "prefix x2 (c # ys)"
    by (auto simp: sublist_append)
  then show "sublist t xs \<or> sublist t ys \<or> (\<exists>t1 t2. t = t1 @ c # t2 \<and> suffix t1 xs \<and> prefix t2 ys)"
  proof cases
    case 1
    then show ?thesis by simp
  next
    case 2
    then consider "t = []" | zs where "t = c # zs" "prefix zs ys" | "sublist t ys"
      by (auto simp: sublist_Cons_right prefix_Cons)
    then show ?thesis
    proof cases
      case 2
      then have "t = [] @ c # zs \<and> suffix [] xs \<and> prefix zs ys" by simp
      then show ?thesis by blast
    qed simp_all
  next
    case 3
    from 3(3) consider "x2 = []" | zs where "x2 = c # zs" "prefix zs ys"
      by (auto simp: prefix_Cons)
    then show ?thesis
    proof cases
      case 1
      with 3 show ?thesis by auto
    next
      case 2
      with 3 have "t = x1 @ c # zs \<and> suffix x1 xs \<and> prefix zs ys" by simp
      then show ?thesis by blast
    qed
  qed
next
  assume "sublist t xs \<or> sublist t ys \<or> (\<exists>t1 t2. t = t1 @ c # t2 \<and> suffix t1 xs \<and> prefix t2 ys)"
  then consider "sublist t xs" | "sublist t ys"
    | t1 t2 where "t = t1 @ c # t2" "suffix t1 xs" "prefix t2 ys"
    by blast
  then show "sublist t (xs @ c # ys)"
  proof cases
    case 1
    then show ?thesis by (simp add: sublist_append)
  next
    case 2
    then show ?thesis by (simp add: sublist_append sublist_Cons_right)
  next
    case 3
    then have "t = t1 @ (c # t2) \<and> suffix t1 xs \<and> prefix (c # t2) (c # ys)" by simp
    then show ?thesis unfolding sublist_append by blast
  qed
qed

lemma split_at_unique:
  "c \<notin> set u \<Longrightarrow> c \<notin> set v \<Longrightarrow> u @ c # v = t1 @ c # t2 \<longleftrightarrow> t1 = u \<and> t2 = v"
  by (auto simp add: append_Cons_eq_iff)

lemma fetch_not_split: "''fetch'' \<noteq> t1 @ CHR '' '' # t2"
proof
  assume "''fetch'' = t1 @ CHR '' '' # t2"
  then have "CHR '' '' \<in> set ''fetch''" by (metis in_set_conv_decomp)
  then show False by simp
qed

lemma rate_limit_split:
  "''rate limit'' = t1 @ CHR '' '' # t2 \<longleftrightarrow> t1 = ''rate'' \<and> t2 = ''limit''"
  using split_at_unique[of "CHR '' ''" "''rate''" "''limit''" t1 t2] by auto

lemma fetch_between_spaces:
  "str_includes (a @ CHR '' '' # p @ CHR '' '' # b) ''fetch''
     \<longleftrightarrow> sublist ''fetch'' a \<or> str_includes p ''fetch'' \<or> sublist ''fetch'' b"
  by (simp add: str_includes_sublist sublist_separator fetch_not_split)

lemma rate_limit_between_spaces:
  "\<not> suffix ''rate'' a \<Longrightarrow> \<not> prefix ''limit'' b \<Longrightarrow>
   str_includes (a @ CHR '' '' # p @ CHR '' '' # b) ''rate limit''
     \<longleftrightarrow> sublist ''rate limit'' a \<or> str_includes p ''rate limit'' \<or> sublist ''rate limit'' b"
  by (auto simp: str_includes_sublist sublist_separator rate_limit_split)

lemma plain_error_between_spaces:
  assumes "\<not> str_includes prov ''fetch''" "\<not> str_includes prov ''rate limit''"
    and "\<not> sublist ''fetch'' a" "\<not> sublist ''fetch'' b"
    and "\<not> sublist ''rate limit'' a" "\<not> sublist ''rate limit'' b"
    and "\<not> suffix ''rate'' a" "\<not> prefix ''limit'' b"
  shows "plain_error (Error (a @ CHR '' '' # prov @ CHR '' '' # b))"
  unfolding plain_error_def message.simps instanceof_TypeError.simps
  using assms
  by (simp only: fetch_between_spaces rate_limit_between_spaces simp_thms)

lemma validation_errors_plain:
  assumes "\<not> str_includes prov ''fetch''" "\<not> str_includes prov ''rate limit''"
  shows "plain_error (invalid_structure prov)" "plain_error (no_content prov)"
    "plain_error (not_a_string prov)"
proof -
  have 1: "invalid_structure prov
      = Error (''Invalid response structure from'' @ CHR '' '' # prov @ CHR '' '' # ''API'')"
    by (simp add: invalid_structure_def)
  have 2: "no_content prov
      = Error (''No message content in response from'' @ CHR '' '' # prov @ CHR '' '' # ''API'')"
    by (simp add: no_content_def)
  have 3: "not_a_string prov
      = Error (''Message content is not a string from'' @ CHR '' '' # prov @ CHR '' '' # ''API'')"
    by (simp add: not_a_string_def)
  show "plain_error (invalid_structure prov)"
    unfolding 1 by (rule plain_error_between_spaces[OF assms]) (simp_all add: sublist_code suffix_to_prefix)
  show "plain_error (no_content prov)"
    unfolding 2 by (rule plain_error_between_spaces[OF assms]) (simp_all add: sublist_code suffix_to_prefix)
  show "plain_error (not_a_string prov)"
    unfolding 3 by (rule plain_error_between_spaces[OF assms]) (simp_all add: sublist_code suffix_to_prefix)
qed

lemma catch_block_plain: "plain_error e \<Longrightarrow> catch_block maxRetries attempt r e = Rethrow e"
  by (simp add: catch_block_def plain_error_def)

subsection \<open>Rate limits\<close>

lemma callOpenAIWithRetry_configured:
  "API_KEY (select_provider e prov) = Some key \<Longrightarrow> key \<noteq> [] \<Longrightarrow>
   callOpenAIWithRetry e up rnd msgs maxRetries prov
     = retry_loop (up (build_request (select_provider e prov) key prov msgs)) rnd prov maxRetries 0 None []"
  by (simp add: callOpenAIWithRetry_def Let_def)

lemma retry_loop_rate_limits_then_success:
  assumes "\<And>i. i < maxRetries \<Longrightarrow> is_429 (fetch i)"
    and "fetch maxRetries = FetchResolves resp" "ok resp" "body_json resp = Inr data"
    and "completion_content data = Some (JStr s)"
  shows "retry_loop fetch rnd prov maxRetries 0 None []
     = \<lparr>outcome = Inr data, attempts = Suc maxRetries,
        sleeps = rate_limit_delays fetch rnd 0 maxRetries\<rparr>"
proof -
  have "retry_loop fetch rnd prov maxRetries 0 None []
      = retry_loop fetch rnd prov maxRetries maxRetries None ([] @ rate_limit_delays fetch rnd 0 maxRetries)"
    using assms(1) by (intro retry_loop_skip_429) simp_all
  moreover have "try_block prov maxRetries maxRetries (rnd maxRetries) (fetch maxRetries) = Returned data"
    using assms(2-5) by (simp add: try_block_def validate_data_Returned_iff)
  ultimately show ?thesis
    by (simp add: retry_loop_Returned)
qed

lemma retry_loop_rate_limits_exhausted:
  assumes "\<And>i. i \<le> maxRetries \<Longrightarrow> is_429 (fetch i)"
  shows "retry_loop fetch rnd prov maxRetries 0 None []
     = \<lparr>outcome = Inl (rate_limit_error prov), attempts = Suc maxRetries,
        sleeps = rate_limit_delays fetch rnd 0 maxRetries\<rparr>"
proof -
  have "retry_loop fetch rnd prov maxRetries 0 None []
      = retry_loop fetch rnd prov maxRetries maxRetries None ([] @ rate_limit_delays fetch rnd 0 maxRetries)"
    using assms by (intro retry_loop_skip_429) simp_all
  moreover obtain resp where "fetch maxRetries = FetchResolves resp" "status resp = 429"
    using assms[of maxRetries] by (auto simp: is_429_def split: fetch_result.splits)
  then have "try_block prov maxRetries maxRetries (rnd maxRetries) (fetch maxRetries)
      = Thrown (rate_limit_error prov)"
    by (simp add: try_block_429_last)
  ultimately show ?thesis
    by (simp add: retry_loop_Rethrow[where e = "rate_limit_error prov"] catch_block_last)
qed

text \<open>
  Claim C2. With \<open>maxRetries = 5\<close> (six attempts) and a configured credential: when the
  upstream answers the attempts 0 to 4 with status 429 and attempt 5 with a successful response
  whose body has a string at \<^verbatim>\<open>choices[0].message.content\<close>, the retrier returns that body
  after exactly 6 attempts; when the upstream answers every attempt with status 429, the
  retrier throws the rate-limit error after exactly 6 attempts. In both cases it has slept 5
  times.
\<close>

theorem retrier_six_attempts:
  assumes "API_KEY (select_provider e prov) = Some key" "key \<noteq> []"
    and "fetch = up (build_request (select_provider e prov) key prov msgs)"
  shows "((\<forall>i<5. is_429 (fetch i)) \<and> fetch 5 = FetchResolves resp \<and> ok resp
            \<and> body_json resp = Inr data \<and> completion_content data = Some (JStr s)
          \<longrightarrow> callOpenAIWithRetry e up rnd msgs 5 prov
               = \<lparr>outcome = Inr data, attempts = 6, sleeps = rate_limit_delays fetch rnd 0 5\<rparr>)
       \<and> ((\<forall>i\<le>5. is_429 (fetch i))
          \<longrightarrow> callOpenAIWithRetry e up rnd msgs 5 prov
               = \<lparr>outcome = Inl (rate_limit_error prov), attempts = 6,
                  sleeps = rate_limit_delays fetch rnd 0 5\<rparr>)
       \<and> length (rate_limit_delays fetch rnd 0 5) = 5"
  using assms
  by (auto simp: callOpenAIWithRetry_configured length_rate_limit_delays
        retry_loop_rate_limits_then_success retry_loop_rate_limits_exhausted)

theorem retrier_six_attempts_witness:
  "callOpenAIWithRetry example_env
       (rate_limited_then 5 (json_response (completion ''Hello''))) no_jitter (JArr []) 5 ''openrouter''
     = \<lparr>outcome = Inr (completion ''Hello''), attempts = 6,
        sleeps = [Millis 1000, Millis 2000, Millis 4000, Millis 8000, Millis 16000]\<rparr>
   \<and> callOpenAIWithRetry example_env
       (rate_limited_then 6 (json_response (completion ''Hello''))) no_jitter (JArr []) 5 ''openrouter''
     = \<lparr>outcome = Inl (Error ''openrouter rate limit exceeded. Please try again later.''),
        attempts = 6,
        sleeps = [Millis 1000, Millis 2000, Millis 4000, Millis 8000, Millis 16000]\<rparr>"
proof -
  let ?cfg = "select_provider example_env ''openrouter''"
  let ?req = "build_request ?cfg ''sk-or-test'' ''openrouter'' (JArr [])"
  let ?ok = "json_response (completion ''Hello'')"
  have key: "API_KEY ?cfg = Some ''sk-or-test''" "''sk-or-test'' \<noteq> []"
    by (simp_all add: select_provider_def example_env_def)
  have five: "\<forall>i<5. is_429 (rate_limited_then 5 ?ok ?req i)"
    by (simp add: rate_limited_then_def is_429_def error_response_def)
  have sixth: "rate_limited_then 5 ?ok ?req 5 = FetchResolves ?ok" "ok ?ok"
    "body_json ?ok = Inr (completion ''Hello'')"
    "completion_content (completion ''Hello'') = Some (JStr ''Hello'')"
    by (simp_all add: rate_limited_then_def json_response_def ok_def completion_content_def
          completion_def message_content_def)
  have all: "\<forall>i\<le>5. is_429 (rate_limited_then 6 ?ok ?req i)"
    by (simp add: rate_limited_then_def is_429_def error_response_def)
  have delays: "rate_limit_delays (rate_limited_then n ?ok ?req) no_jitter 0 5
      = [Millis 1000, Millis 2000, Millis 4000, Millis 8000, Millis 16000]" if "5 \<le> n" for n
    using that
    by (simp add: rate_limit_delays_def upt_rec rate_limited_then_def error_response_def
          rate_limit_delay_def backoff_delay_def no_jitter_def)
  have success: "callOpenAIWithRetry example_env (rate_limited_then 5 ?ok) no_jitter (JArr []) 5
        ''openrouter''
      = \<lparr>outcome = Inr (completion ''Hello''), attempts = 6,
         sleeps = rate_limit_delays (rate_limited_then 5 ?ok ?req) no_jitter 0 5\<rparr>"
    using retrier_six_attempts[OF key refl, of "rate_limited_then 5 ?ok" "JArr []" ?ok
        "completion ''Hello''" "''Hello''" no_jitter] five sixth
    by blast
  have exhausted: "callOpenAIWithRetry example_env (rate_limited_then 6 ?ok) no_jitter (JArr []) 5
        ''openrouter''
      = \<lparr>outcome = Inl (rate_limit_error ''openrouter''), attempts = 6,
         sleeps = rate_limit_delays (rate_limited_then 6 ?ok ?req) no_jitter 0 5\<rparr>"
    using retrier_six_attempts[OF key refl, of "rate_limited_then 6 ?ok" "JArr []" ?ok
        "completion ''Hello''" "''Hello''" no_jitter] all
    by blast
  show ?thesis
    unfolding success exhausted by (simp add: delays rate_limit_error_def)
qed





subsection \<open>Errors that are not retried\<close>

text \<open>
  An upstream answer with status 402 ends the call at once, at any attempt.
\<close>

lemma payment_required_first_attempt:
  assumes "API_KEY (select_provider e prov) = Some key" "key \<noteq> []"
    and "up (build_request (select_provider e prov) key prov msgs) 0 = FetchResolves resp"
    and "status resp = 402"
  shows "callOpenAIWithRetry e up rnd msgs maxRetries prov
     = \<lparr>outcome = Inl payment_required_error, attempts = 1, sleeps = []\<rparr>"
  using assms
  by (simp add: callOpenAIWithRetry_configured payment_required_not_retried)

text \<open>
  Claim C4, evaluated where the code departs from it. In the first call the upstream answers
  every attempt with status 400 and the body \<^verbatim>\<open>cannot fetch model\<close>; in the second the
  provider identifier is \<^verbatim>\<open>prefetch\<close> and the upstream answers with status 401 and the body
  \<^verbatim>\<open>Unauthorized\<close>. Neither error is a network failure or a rate limit, yet each message
  contains \<^verbatim>\<open>fetch\<close>, so the \<^verbatim>\<open>catch\<close> block takes it for a network error: the retrier
  sleeps five times and gives up only after six attempts.
\<close>

theorem upstream_error_retried:
  "callOpenAIWithRetry example_env (always_responds (error_response 400 ''cannot fetch model''))
      no_jitter (JArr []) 5 ''openrouter''
   = \<lparr>outcome = Inl (Error ''openrouter API error: 400 - cannot fetch model''), attempts = 6,
      sleeps = [Millis 1000, Millis 2000, Millis 4000, Millis 8000, Millis 16000]\<rparr>
   \<and> callOpenAIWithRetry example_env (always_responds (error_response 401 ''Unauthorized''))
      no_jitter (JArr []) 5 ''prefetch''
   = \<lparr>outcome = Inl (Error ''prefetch API error: 401 - Unauthorized''), attempts = 6,
      sleeps = [Millis 1000, Millis 2000, Millis 4000, Millis 8000, Millis 16000]\<rparr>"
  by (simp add: callOpenAIWithRetry_def example_env_def select_provider_def always_responds_def
     error_response_def no_jitter_def retry_loop.simps try_block_def ok_def api_error_def
     show_nat.simps digit_char_def catch_block_def backoff_delay_def)

text \<open>
  Claim C5 as stated fails: a successful response whose message content is the empty string
  passes the validation and is returned.
\<close>

theorem empty_content_counterexample:
  "callOpenAIWithRetry example_env (always_responds (json_response (completion []))) no_jitter
      (JArr []) 5 ''openrouter''
   = \<lparr>outcome = Inr (completion []), attempts = 1, sleeps = []\<rparr>"
  by (simp add: callOpenAIWithRetry_def example_env_def select_provider_def always_responds_def
     json_response_def no_jitter_def retry_loop.simps try_block_def ok_def 
     validate_data_def check_content_def message_content_def completion_def)

text \<open>
  Claim C5, amended. For a successful response whose body is a JSON value other than
  \<^verbatim>\<open>null\<close>, and a provider identifier that contains neither \<^verbatim>\<open>fetch\<close> nor
  \<^verbatim>\<open>rate limit\<close>: when the value at \<^verbatim>\<open>choices[0].message.content\<close> is a string (the empty
  string included) the retrier returns the body at that attempt; otherwise it throws one of the
  three validation errors at that attempt, without another attempt and without sleeping.
\<close>

theorem invalid_completion_not_retried:
  assumes "attempt \<le> maxRetries" "fetch attempt = FetchResolves resp" "ok resp"
    and "body_json resp = Inr data" "data \<noteq> JNull"
    and "\<not> str_includes prov ''fetch''" "\<not> str_includes prov ''rate limit''"
  shows "(\<forall>s. completion_content data = Some (JStr s) \<longrightarrow>
            retry_loop fetch rnd prov maxRetries attempt lastError sl
              = \<lparr>outcome = Inr data, attempts = Suc attempt, sleeps = sl\<rparr>)
       \<and> ((\<forall>s. completion_content data \<noteq> Some (JStr s)) \<longrightarrow>
            (\<exists>e \<in> {invalid_structure prov, no_content prov, not_a_string prov}.
               retry_loop fetch rnd prov maxRetries attempt lastError sl
                 = \<lparr>outcome = Inl e, attempts = Suc attempt, sleeps = sl\<rparr>))"
proof (intro conjI allI impI)
  fix s assume "completion_content data = Some (JStr s)"
  then have "try_block prov maxRetries attempt (rnd attempt) (fetch attempt) = Returned data"
    using assms(2-4) by (simp add: try_block_def validate_data_Returned_iff)
  then show "retry_loop fetch rnd prov maxRetries attempt lastError sl
              = \<lparr>outcome = Inr data, attempts = Suc attempt, sleeps = sl\<rparr>"
    using assms(1) by (rule retry_loop_Returned[rotated])
next
  assume "\<forall>s. completion_content data \<noteq> Some (JStr s)"
  then obtain e where e: "e \<in> {invalid_structure prov, no_content prov, not_a_string prov}"
      "validate_data prov data = Thrown e"
    using validate_data_Thrown[OF assms(5), of prov] by blast
  then have "try_block prov maxRetries attempt (rnd attempt) (fetch attempt) = Thrown e"
    using assms(2-4) by (simp add: try_block_def)
  moreover have "plain_error e"
    using e(1) validation_errors_plain[OF assms(6,7)] by auto
  ultimately have "retry_loop fetch rnd prov maxRetries attempt lastError sl
                 = \<lparr>outcome = Inl e, attempts = Suc attempt, sleeps = sl\<rparr>"
    using assms(1) by (intro retry_loop_Rethrow[where e = e]) (simp_all add: catch_block_plain)
  with e(1) show "\<exists>e \<in> {invalid_structure prov, no_content prov, not_a_string prov}.
               retry_loop fetch rnd prov maxRetries attempt lastError sl
                 = \<lparr>outcome = Inl e, attempts = Suc attempt, sleeps = sl\<rparr>" by blast
qed

theorem invalid_completion_not_retried_witness:
  "retry_loop (always_responds (json_response (JObj [(''choices'', JArr [])])) example_request) no_jitter
       ''openrouter'' 5 0 None []
     = \<lparr>outcome = Inl (Error ''Invalid response structure from openrouter API''), attempts = 1,
        sleeps = []\<rparr>
   \<and> retry_loop (always_responds (json_response (completion ''Hello'')) example_request) no_jitter
       ''openrouter'' 5 0 None []
     = \<lparr>outcome = Inr (completion ''Hello''), attempts = 1, sleeps = []\<rparr>"
proof -
  let ?bad = "JObj [(''choices'', JArr [])]"
  have prov: "\<not> str_includes ''openrouter'' ''fetch''" "\<not> str_includes ''openrouter'' ''rate limit''"
    by simp_all
  have bad: "always_responds (json_response ?bad) example_request 0 = FetchResolves (json_response ?bad)"
    "ok (json_response ?bad)" "body_json (json_response ?bad) = Inr ?bad" "?bad \<noteq> JNull"
    "\<forall>s. completion_content ?bad \<noteq> Some (JStr s)"
    by (simp_all add: always_responds_def json_response_def ok_def completion_content_def)
  have good: "always_responds (json_response (completion ''Hello'')) example_request 0
       = FetchResolves (json_response (completion ''Hello''))"
    "ok (json_response (completion ''Hello''))"
    "body_json (json_response (completion ''Hello'')) = Inr (completion ''Hello'')"
    "completion ''Hello'' \<noteq> JNull"
    "completion_content (completion ''Hello'') = Some (JStr ''Hello'')"
    by (simp_all add: always_responds_def json_response_def ok_def completion_content_def
          completion_def message_content_def)
  from invalid_completion_not_retried[where attempt = 0 and maxRetries = 5
      and fetch = "always_responds (json_response ?bad) example_request"
      and resp = "json_response ?bad" and data = ?bad and prov = "''openrouter''"
      and rnd = no_jitter and lastError = None and sl = "[]", OF le0 bad(1,2,3,4) prov] bad(5)
  obtain e where e: "e \<in> {invalid_structure ''openrouter'', no_content ''openrouter'',
        not_a_string ''openrouter''}"
      "retry_loop (always_responds (json_response ?bad) example_request) no_jitter ''openrouter'' 5 0 None []
         = \<lparr>outcome = Inl e, attempts = Suc 0, sleeps = []\<rparr>"
    by blast
  have "try_block ''openrouter'' 5 0 (no_jitter 0) (always_responds (json_response ?bad) example_request 0)
      = Thrown (invalid_structure ''openrouter'')"
    by (simp add: try_block_def always_responds_def json_response_def ok_def validate_data_def)
  then have "retry_loop (always_responds (json_response ?bad) example_request) no_jitter ''openrouter'' 5 0
        None []
      = \<lparr>outcome = Inl (invalid_structure ''openrouter''), attempts = Suc 0, sleeps = []\<rparr>"
    by (intro retry_loop_Rethrow[where e = "invalid_structure ''openrouter''"])
       (simp_all add: catch_block_plain validation_errors_plain)
  with e have first: "retry_loop (always_responds (json_response ?bad) example_request) no_jitter
        ''openrouter'' 5 0 None []
      = \<lparr>outcome = Inl (Error ''Invalid response structure from openrouter API''), attempts = 1,
         sleeps = []\<rparr>"
    by (simp add: invalid_structure_def)
  from invalid_completion_not_retried[where attempt = 0 and maxRetries = 5
      and fetch = "always_responds (json_response (completion ''Hello'')) example_request"
      and resp = "json_response (completion ''Hello'')" and data = "completion ''Hello''"
      and prov = "''openrouter''" and rnd = no_jitter and lastError = None and sl = "[]",
      OF le0 good(1,2,3,4) prov] good(5)
  have "retry_loop (always_responds (json_response (completion ''Hello'')) example_request) no_jitter
       ''openrouter'' 5 0 None []
     = \<lparr>outcome = Inr (completion ''Hello''), attempts = 1, sleeps = []\<rparr>"
    by simp
  with first show ?thesis by simp
qed

subsection \<open>Attempts are counted from one\<close>

lemma retry_loop_attempts_ge:
  "attempt \<le> attempts (retry_loop fetch rnd prov maxRetries attempt lastError sl)"
proof (induction fetch rnd prov maxRetries attempt lastError sl rule: retry_loop.induct)
  case (1 fetch rnd prov maxRetries attempt lastError sl)
  show ?case
  proof (cases "attempt \<le> maxRetries")
    case False
    then show ?thesis by (subst retry_loop.simps) simp
  next
    case True
    show ?thesis
    proof (cases "try_block prov maxRetries attempt (rnd attempt) (fetch attempt)")
      case (Returned data)
      with True show ?thesis by (simp add: retry_loop_Returned)
    next
      case (Slept d)
      with True "1.IH" show ?thesis
        by (fastforce simp: retry_loop_Slept)
    next
      case (Thrown err)
      show ?thesis
      proof (cases "catch_block maxRetries attempt (rnd attempt) err")
        case (Rethrow e')
        with True Thrown show ?thesis by (simp add: retry_loop_Rethrow)
      next
        case (Retry d)
        show ?thesis
        proof (cases d)
          case None
          with True Thrown Retry "1.IH" show ?thesis
            by (fastforce simp: retry_loop_Retry_now)
        next
          case (Some ms)
          with True Thrown Retry "1.IH" show ?thesis
            by (fastforce simp: retry_loop_Retry_sleep)
        qed
      qed
    qed
  qed
qed

lemma retry_loop_attempts_pos:
  "0 < attempts (retry_loop fetch rnd prov maxRetries 0 lastError sl)"
proof (cases "try_block prov maxRetries 0 (rnd 0) (fetch 0)")
  case (Returned data)
  then show ?thesis by (simp add: retry_loop_Returned)
next
  case (Slept d)
  then show ?thesis
    using retry_loop_attempts_ge[of "Suc 0" fetch rnd prov maxRetries lastError "sl @ [d]"]
    by (simp add: retry_loop_Slept)
next
  case (Thrown err)
  show ?thesis
  proof (cases "catch_block maxRetries 0 (rnd 0) err")
    case (Rethrow e')
    with Thrown show ?thesis by (simp add: retry_loop_Rethrow)
  next
    case (Retry d)
    show ?thesis
    proof (cases d)
      case None
      with Thrown Retry show ?thesis
        using retry_loop_attempts_ge[of "Suc 0" fetch rnd prov maxRetries "Some err" sl]
        by (simp add: retry_loop_Retry_now)
    next
      case (Some ms)
      with Thrown Retry show ?thesis
        using retry_loop_attempts_ge[of "Suc 0" fetch rnd prov maxRetries "Some err" "sl @ [ms]"]
        by (simp add: retry_loop_Retry_sleep)
    qed
  qed
qed

lemma callOpenAIWithRetry_attempts_0:
  "attempts (callOpenAIWithRetry e up rnd msgs n prov) = 0
     \<longleftrightarrow> (API_KEY (select_provider e prov) = None \<or> API_KEY (select_provider e prov) = Some [])"
  using retry_loop_attempts_pos
  by (auto simp: callOpenAIWithRetry_def Let_def split: option.splits)

section \<open>The chat handler\<close>

lemma chat_error_reply_status: "reply_status (chat_error_reply err) \<in> {402, 429, 500}"
  by (simp add: chat_error_reply_def)

lemma dispatch_status: "reply_status (reply (dispatch e up rnd l uid prov msgs)) \<in> {200, 402, 429, 500}"
  using chat_error_reply_status
  by (auto simp: dispatch_def account_usage_def Let_def split: sum.splits prod.splits)

lemma chat_handler_array_status:
  "chat_messages body = Some (JArr msgs) \<Longrightarrow>
   reply_status (reply (chat_handler e up rnd l body)) \<in> {200, 402, 429, 500}"
  using dispatch_status
  by (auto simp: chat_handler_def Let_def split: prod.splits)

lemma chat_handler_not_array:
  "(\<forall>msgs. chat_messages body \<noteq> Some (JArr msgs)) \<Longrightarrow>
   chat_handler e up rnd l body
     = \<lparr>reply = ChatError 400 ''Messages array is required'', ledger_after = l,
        upstream_attempts = 0, request_sleeps = []\<rparr>"
  by (auto simp: chat_handler_def Let_def split: option.splits json.splits)

text \<open>
  Claim C1 as stated fails: a request whose \<open>messages\<close> is the empty list is not rejected.
  With a fresh ledger and an upstream that answers, the handler runs the quota check, calls
  the upstream once and replies with status 200.
\<close>

theorem empty_messages_counterexample:
  "reply (chat_handler example_env (always_responds (json_response (completion ''Hello''))) no_jitter
      Map.empty empty_messages_body)
   = ChatOk (completion ''Hello'') \<lparr>used = 5, totalUsage = 5, limit = 100000, remaining = 99995\<rparr>
  \<and> upstream_attempts (chat_handler example_env (always_responds (json_response (completion ''Hello''))) no_jitter
      Map.empty empty_messages_body) = 1"
  by (simp add: chat_handler_def empty_messages_body_def hasExceededTokenLimit_def getUserEntitlements_def
      dispatch_def callOpenAIWithRetry_def example_env_def select_provider_def always_responds_def
     json_response_def no_jitter_def retry_loop.simps try_block_def ok_def 
     validate_data_def check_content_def message_content_def completion_def account_usage_def
     outputTokens_def updateUserTokenUsage_def Let_def)

text \<open>
  Claim C1, amended. The handler replies with status 400 exactly when the \<open>messages\<close> field
  is absent or is not an array; in that case the reply is \<^verbatim>\<open>Messages array is required\<close>, the
  ledger is untouched and no upstream call is made, so the rejection precedes the quota check and
  the dispatch. Every array passes this validation, whether it is empty or not and whatever its
  elements are.
\<close>

theorem chat_rejects_exactly_non_arrays:
  "(reply_status (reply (chat_handler e up rnd l body)) = 400
      \<longleftrightarrow> (\<forall>msgs. chat_messages body \<noteq> Some (JArr msgs)))
   \<and> ((\<forall>msgs. chat_messages body \<noteq> Some (JArr msgs)) \<longrightarrow>
        chat_handler e up rnd l body
          = \<lparr>reply = ChatError 400 ''Messages array is required'', ledger_after = l,
             upstream_attempts = 0, request_sleeps = []\<rparr>)"
proof (cases "\<forall>msgs. chat_messages body \<noteq> Some (JArr msgs)")
  case True
  then show ?thesis by (simp add: chat_handler_not_array)
next
  case False
  then obtain msgs where "chat_messages body = Some (JArr msgs)" by blast
  from chat_handler_array_status[OF this, of e up rnd l] False show ?thesis by auto
qed

theorem chat_rejects_exactly_non_arrays_witness:
  "chat_handler example_env (always_responds (json_response (completion ''Hello''))) no_jitter
      Map.empty object_messages_body
     = \<lparr>reply = ChatError 400 ''Messages array is required'', ledger_after = Map.empty,
        upstream_attempts = 0, request_sleeps = []\<rparr>
   \<and> reply_status (reply (chat_handler example_env
        (always_responds (json_response (completion ''Hello''))) no_jitter Map.empty
        empty_messages_body)) \<noteq> 400"
proof -
  have obj: "\<forall>msgs. chat_messages object_messages_body \<noteq> Some (JArr msgs)"
    by (simp add: object_messages_body_def)
  have arr: "\<not> (\<forall>msgs. chat_messages empty_messages_body \<noteq> Some (JArr msgs))"
    by (simp add: empty_messages_body_def)
  show ?thesis
    using obj arr
      chat_rejects_exactly_non_arrays[of example_env
        "always_responds (json_response (completion ''Hello''))" no_jitter Map.empty
        object_messages_body]
      chat_rejects_exactly_non_arrays[of example_env
        "always_responds (json_response (completion ''Hello''))" no_jitter Map.empty
        empty_messages_body]
    by blast
qed

lemma inputTokens_no_null: "JNull \<notin> set msgs \<Longrightarrow> \<exists>n. inputTokens acc msgs = Inr n"
proof (induction msgs arbitrary: acc)
  case Nil
  then show ?case by simp
next
  case (Cons m ms)
  then have "m \<noteq> JNull" by auto
  then have "\<exists>k. content_length m = Inr k"
    by (simp add: content_length_def split: option.splits json.splits)
  then obtain k where "content_length m = Inr k" ..
  with Cons show ?case by simp
qed

text \<open>
  Claim C9. A provider identifier other than \<^verbatim>\<open>openrouter\<close> and \<^verbatim>\<open>gpt5-nano\<close> selects
  the credential, endpoint and model of OpenRouter; the request sent is the OpenRouter request
  without the two optional OpenRouter headers. The call fails before it contacts the upstream
  exactly when it would for \<^verbatim>\<open>openrouter\<close>, namely when the OpenRouter key is missing. With
  the key configured, a user below the limit, and messages without a \<^verbatim>\<open>null\<close> element, a
  valid completion from the upstream at the first attempt is answered with status 200.
\<close>

theorem unknown_provider_falls_back:
  assumes "prov \<noteq> ''openrouter''" "prov \<noteq> ''gpt5-nano''"
  shows "select_provider e prov = select_provider e ''openrouter''
     \<and> (\<forall>key. build_request (select_provider e prov) key prov msgs
           = (build_request (select_provider e ''openrouter'') key ''openrouter'' msgs)
               \<lparr>openrouter_headers := False\<rparr>)
     \<and> (attempts (callOpenAIWithRetry e up rnd msgs n prov) = 0
           \<longleftrightarrow> attempts (callOpenAIWithRetry e up rnd msgs n ''openrouter'') = 0)
     \<and> (\<forall>key msgs' resp data s.
           OPENROUTER_API_KEY e = Some key \<and> key \<noteq> []
           \<and> chat_messages body = Some (JArr msgs') \<and> JNull \<notin> set msgs'
           \<and> chat_provider body = Some prov
           \<and> \<not> fst (hasExceededTokenLimit l
                  (case chat_userId body of None \<Rightarrow> ''anonymous'' | Some u \<Rightarrow> u))
           \<and> up (build_request (select_provider e prov) key prov (JArr msgs')) 0
               = FetchResolves resp
           \<and> ok resp \<and> body_json resp = Inr data \<and> completion_content data = Some (JStr s)
           \<longrightarrow> (\<exists>info. reply (chat_handler e up rnd l body) = ChatOk data info)
               \<and> upstream_attempts (chat_handler e up rnd l body) = 1)"
proof (intro conjI allI impI)
  show sel: "select_provider e prov = select_provider e ''openrouter''"
    using assms by (simp add: select_provider_def)
  show "build_request (select_provider e prov) key prov msgs
           = (build_request (select_provider e ''openrouter'') key ''openrouter'' msgs)
               \<lparr>openrouter_headers := False\<rparr>" for key
    using assms by (simp add: build_request_def select_provider_def)
  show "attempts (callOpenAIWithRetry e up rnd msgs n prov) = 0
           \<longleftrightarrow> attempts (callOpenAIWithRetry e up rnd msgs n ''openrouter'') = 0"
    by (simp only: callOpenAIWithRetry_attempts_0 sel)
next
  fix key msgs' resp data s
  assume h: "OPENROUTER_API_KEY e = Some key \<and> key \<noteq> []
           \<and> chat_messages body = Some (JArr msgs') \<and> JNull \<notin> set msgs'
           \<and> chat_provider body = Some prov
           \<and> \<not> fst (hasExceededTokenLimit l
                  (case chat_userId body of None \<Rightarrow> ''anonymous'' | Some u \<Rightarrow> u))
           \<and> up (build_request (select_provider e prov) key prov (JArr msgs')) 0
               = FetchResolves resp
           \<and> ok resp \<and> body_json resp = Inr data \<and> completion_content data = Some (JStr s)"
  let ?uid = "case chat_userId body of None \<Rightarrow> ''anonymous'' | Some u \<Rightarrow> u"
  let ?fetch = "up (build_request (select_provider e prov) key prov (JArr msgs'))"
  have key: "API_KEY (select_provider e prov) = Some key" "key \<noteq> []"
    using h assms by (simp_all add: select_provider_def)
  have "try_block prov 5 0 (rnd 0) (?fetch 0) = Returned data"
    using h by (simp add: try_block_def validate_data_Returned_iff)
  then have loop: "retry_loop ?fetch rnd prov 5 0 None []
      = \<lparr>outcome = Inr data, attempts = Suc 0, sleeps = []\<rparr>"
    by (intro retry_loop_Returned) simp_all
  have call: "callOpenAIWithRetry e up rnd (JArr msgs') 5 prov
      = \<lparr>outcome = Inr data, attempts = Suc 0, sleeps = []\<rparr>"
    using callOpenAIWithRetry_configured[OF key] loop by simp
  obtain k where k: "inputTokens 0 msgs' = Inr k"
    using inputTokens_no_null h by blast
  have "\<exists>info. reply (dispatch e up rnd l' ?uid prov msgs') = ChatOk data info
       \<and> upstream_attempts (dispatch e up rnd l' ?uid prov msgs') = 1" for l'
    using call k by (simp add: dispatch_def account_usage_def Let_def split: prod.splits)
  then have "(\<exists>info. reply (chat_handler e up rnd l body) = ChatOk data info)
        \<and> upstream_attempts (chat_handler e up rnd l body) = 1"
    using h by (auto simp: chat_handler_def Let_def split: prod.splits)
  then show "\<exists>info. reply (chat_handler e up rnd l body) = ChatOk data info"
    and "upstream_attempts (chat_handler e up rnd l body) = 1" by blast+
qed

theorem unknown_provider_falls_back_witness:
  "''unknownX'' \<noteq> ''openrouter'' \<and> ''unknownX'' \<noteq> ''gpt5-nano''
   \<and> select_provider example_env ''unknownX''
       = \<lparr>API_KEY = Some ''sk-or-test'',
          API_ENDPOINT = ''https://openrouter.ai/api/v1/chat/completions'',
          model = ''openai/gpt-3.5-turbo''\<rparr>
   \<and> reply_status (reply (chat_handler example_env
        (always_responds (json_response (completion ''Hello''))) no_jitter Map.empty
        unknown_provider_body)) = 200"
proof -
  let ?up = "always_responds (json_response (completion ''Hello''))"
  let ?msgs = "[JObj [(''role'', JStr ''user''), (''content'', JStr ''Hi'')]]"
  have neq: "''unknownX'' \<noteq> ''openrouter''" "''unknownX'' \<noteq> ''gpt5-nano''"
    by simp_all
  note fb = unknown_provider_falls_back[OF neq, of example_env "JArr []" ?up no_jitter 5
      unknown_provider_body Map.empty]
  have sel: "select_provider example_env ''unknownX''
       = \<lparr>API_KEY = Some ''sk-or-test'',
          API_ENDPOINT = ''https://openrouter.ai/api/v1/chat/completions'',
          model = ''openai/gpt-3.5-turbo''\<rparr>"
    using fb by (simp add: select_provider_def example_env_def)
  have pre: "OPENROUTER_API_KEY example_env = Some ''sk-or-test'' \<and> ''sk-or-test'' \<noteq> []
      \<and> chat_messages unknown_provider_body = Some (JArr ?msgs) \<and> JNull \<notin> set ?msgs
      \<and> chat_provider unknown_provider_body = Some ''unknownX''
      \<and> \<not> fst (hasExceededTokenLimit Map.empty
             (case chat_userId unknown_provider_body of None \<Rightarrow> ''anonymous'' | Some u \<Rightarrow> u))
      \<and> ?up (build_request (select_provider example_env ''unknownX'') ''sk-or-test'' ''unknownX''
               (JArr ?msgs)) 0
          = FetchResolves (json_response (completion ''Hello''))
      \<and> ok (json_response (completion ''Hello''))
      \<and> body_json (json_response (completion ''Hello'')) = Inr (completion ''Hello'')
      \<and> completion_content (completion ''Hello'') = Some (JStr ''Hello'')"
    by (simp add: example_env_def unknown_provider_body_def hasExceededTokenLimit_def
          getUserEntitlements_def always_responds_def json_response_def ok_def
          completion_content_def completion_def message_content_def Let_def)
  from fb pre obtain info where
    "reply (chat_handler example_env ?up no_jitter Map.empty unknown_provider_body)
       = ChatOk (completion ''Hello'') info"
    by blast
  then have "reply_status (reply (chat_handler example_env ?up no_jitter Map.empty
        unknown_provider_body)) = 200"
    by simp
  with neq sel show ?thesis by blast
qed

end
